theory Spec2Isabelle
  imports Main "HOL-Library.AList" "HOL-Library.Char_ord" "HOL-Library.List_Lexorder"
begin

section \<open>Strings, paths and the file tree\<close>

text \<open>
  Go strings are byte sequences; they are modelled as \<^typ>\<open>string\<close>. The order on
  strings that \<^verbatim>\<open>sort.Strings\<close> uses (bytewise lexicographic) is the one of
  \<open>Char_ord\<close> and \<open>List_Lexorder\<close>.
\<close>

definition newline :: char where
  "newline = CHR 0x0A"

text \<open>\<open>splitOn sep acc s\<close> cuts \<open>s\<close> at every \<open>sep\<close>; \<open>acc\<close> is the piece being read.\<close>

fun splitOn :: "char \<Rightarrow> string \<Rightarrow> string \<Rightarrow> string list" where
  "splitOn sep acc [] = [acc]"
| "splitOn sep acc (c # cs) =
     (if c = sep then acc # splitOn sep [] cs else splitOn sep (acc @ [c]) cs)"

text \<open>
  A path is the list of the components of its cleaned form (\<^verbatim>\<open>filepath.Clean\<close>): empty
  and \<^verbatim>\<open>.\<close> components are dropped, \<^verbatim>\<open>..\<close> removes the component before it and
  stays at the root. Relative names are resolved against the root of the modelled tree.
\<close>

type_synonym path = "string list"

definition clean_step :: "path \<Rightarrow> string \<Rightarrow> path" where
  "clean_step acc c =
     (if c = [] \<or> c = ''.'' then acc
      else if c = ''..'' then butlast acc
      else acc @ [c])"

definition path_of :: "string \<Rightarrow> path" where
  "path_of s = foldl clean_step [] (splitOn CHR ''/'' [] s)"

text \<open>
  \<^verbatim>\<open>filepath.Join(dir, "a/b")\<close> with a literal second argument free of \<^verbatim>\<open>..\<close> is the
  cleaned \<open>dir\<close> followed by the components of the literal.
\<close>

definition Join :: "path \<Rightarrow> path \<Rightarrow> path" where
  "Join dir rel = dir @ rel"

text \<open>
  The file tree: regular files with their content, directories, whether the tree is
  mounted read-only, and whether writing data fails once a file has been opened (disk
  full, I/O error): \<open>writeFault = Some n\<close> means that only the first \<open>n\<close> bytes of a
  write reach the file before the error. The root directory \<open>[]\<close> always exists.
  Permissions per file and links are not modelled.
\<close>

record filesys =
  files :: "(path \<times> string) list"
  dirs :: "path list"
  readonly :: bool
  writeFault :: "nat option"

definition is_file :: "filesys \<Rightarrow> path \<Rightarrow> bool" where
  "is_file fs p = (map_of (files fs) p \<noteq> None)"

definition is_dir :: "filesys \<Rightarrow> path \<Rightarrow> bool" where
  "is_dir fs p = (p = [] \<or> p \<in> set (dirs fs))"

text \<open>
  Modelled from the spec: \<^verbatim>\<open>osutil.FileExists\<close> is not among the sources; a marker
  file "exists" when something of that name is present in the tree.
\<close>

definition FileExists :: "filesys \<Rightarrow> path \<Rightarrow> bool" where
  "FileExists fs p = (is_file fs p \<or> is_dir fs p)"

text \<open>
  \<^verbatim>\<open>os.MkdirAll\<close>: walks down the components, keeps directories that exist, creates
  the missing ones, fails (\<open>False\<close>) at a component that is a regular file or that
  cannot be created.
\<close>

fun mkdirs :: "path \<Rightarrow> path \<Rightarrow> filesys \<Rightarrow> bool \<times> filesys" where
  "mkdirs pre [] fs = (True, fs)"
| "mkdirs pre (c # cs) fs =
     (let q = pre @ [c] in
      if is_file fs q then (False, fs)
      else if is_dir fs q then mkdirs q cs fs
      else if readonly fs then (False, fs)
      else mkdirs q cs (fs\<lparr>dirs := q # dirs fs\<rparr>))"

definition MkdirAll :: "path \<Rightarrow> filesys \<Rightarrow> bool \<times> filesys" where
  "MkdirAll p fs = mkdirs [] p fs"

text \<open>
  \<^verbatim>\<open>ioutil.WriteFile\<close>: opens the file, creating or truncating it, then writes the
  data. The open fails, and nothing changes, when the tree is read-only, the name is a
  directory or the parent directory does not exist. A failure after the open returns
  the error and leaves the file created or truncated, with the part of the data that
  was written.
\<close>

definition WriteFile :: "path \<Rightarrow> string \<Rightarrow> filesys \<Rightarrow> bool \<times> filesys" where
  "WriteFile p content fs =
     (if readonly fs \<or> p = [] \<or> is_dir fs p \<or> \<not> is_dir fs (butlast p) then (False, fs)
      else
        (case writeFault fs of
           Some n \<Rightarrow> (False, fs\<lparr>files := AList.update p (take n content) (files fs)\<rparr>)
         | None \<Rightarrow> (True, fs\<lparr>files := AList.update p content (files fs)\<rparr>)))"

text \<open>Reading a file (\<^verbatim>\<open>ioutil.ReadFile\<close>, \<^verbatim>\<open>os.Open\<close> and read): \<open>None\<close> is the error.\<close>

definition ReadFile :: "path \<Rightarrow> filesys \<Rightarrow> string option" where
  "ReadFile p fs = map_of (files fs) p"

section \<open>Errors\<close>

datatype error =
    CannotMakeCloudConfigDir
  | CannotDisableCloudInit
  | AlreadyRestricted
  | AlreadyDisabled
  | ErrorOrEnabledState
  | OpenError
  | DecodeError
  | MissingDatasource
  | UnexpectedDatasourceFormat string
  | WriteError
  | ReadError
  | YamlError
  | CopyError
  | MissingTargetDir
  | UnknownGrade
  | CommandFailed string
  | InvalidOutput string

section \<open>Disabling cloud-init\<close>

definition ubuntuDataCloudDir :: "path \<Rightarrow> path" where
  "ubuntuDataCloudDir rootdir = Join rootdir [''etc'', ''cloud'']"

definition DisableCloudInit :: "path \<Rightarrow> filesys \<Rightarrow> error option \<times> filesys" where
  "DisableCloudInit rootDir fs =
     (let ubuntuDataCloud = ubuntuDataCloudDir rootDir in
      case MkdirAll ubuntuDataCloud fs of
        (False, fs1) \<Rightarrow> (Some CannotMakeCloudConfigDir, fs1)
      | (True, fs1) \<Rightarrow>
          (case WriteFile (Join ubuntuDataCloud [''cloud-init.disabled'']) [] fs1 of
             (False, fs2) \<Rightarrow> (Some CannotDisableCloudInit, fs2)
           | (True, fs2) \<Rightarrow> (None, fs2)))"

section \<open>The status of cloud-init\<close>

datatype CloudInitState =
    CloudInitDisabledPermanently
  | CloudInitRestrictedBySnapd
  | CloudInitUntriggered
  | CloudInitDone
  | CloudInitEnabled
  | CloudInitNotFound
  | CloudInitErrored

definition cloudInitSnapdRestrictFile :: path where
  "cloudInitSnapdRestrictFile = [''etc'', ''cloud'', ''cloud.cfg.d'', ''zzzz_snapd.cfg'']"

definition cloudInitDisabledFile :: path where
  "cloudInitDisabledFile = [''etc'', ''cloud'', ''cloud-init.disabled'']"

definition nocloudRestrictYaml :: string where
  "nocloudRestrictYaml =
     ''datasource_list: [NoCloud]'' @ [newline] @
     ''datasource:'' @ [newline] @
     ''  NoCloud:'' @ [newline] @
     ''    fs_label: null'' @ [newline] @
     ''manual_cache_clean: true'' @ [newline]"

text \<open>\<^verbatim>\<open>fmt.Sprintf(genericCloudRestrictYamlPattern, ds)\<close>.\<close>

definition genericCloudRestrictYaml :: "string \<Rightarrow> string" where
  "genericCloudRestrictYaml ds = ''datasource_list: ['' @ ds @ '']'' @ [newline]"

text \<open>\<^verbatim>\<open>strutil.ListContains(localDatasources, ds)\<close> is membership in this list.\<close>

definition localDatasources :: "string list" where
  "localDatasources = [''NoCloud'', ''None'']"

text \<open>
  \<^verbatim>\<open>cloudInitStatusRe = (?m)^status: (.*)$\<close>: the first line that starts with
  \<^verbatim>\<open>status: \<close> matches; the group is the rest of that line. The result is the list
  of submatches, empty when nothing matches.
\<close>

fun statusLine :: "string list \<Rightarrow> string list" where
  "statusLine [] = []"
| "statusLine (l # ls) =
     (if take 8 l = ''status: '' then [l, drop 8 l] else statusLine ls)"

definition cloudInitStatusRe_FindSubmatch :: "string \<Rightarrow> string list" where
  "cloudInitStatusRe_FindSubmatch out = statusLine (splitOn newline [] out)"

text \<open>
  \<^verbatim>\<open>datasourceRe = DataSource([a-zA-Z0-9]+).*\<close>: the leftmost \<^verbatim>\<open>DataSource\<close> that is
  followed by a letter or digit matches; the group is the longest run of letters and
  digits after it, the whole match runs to the end of the line.
\<close>

definition alnum :: "char \<Rightarrow> bool" where
  "alnum c = (c \<in> set ''abcdefghijklmnopqrstuvwxyzABCDEFGHIJKLMNOPQRSTUVWXYZ0123456789'')"

fun datasourceRe_FindStringSubmatch :: "string \<Rightarrow> string list" where
  "datasourceRe_FindStringSubmatch [] = []"
| "datasourceRe_FindStringSubmatch (c # cs) =
     (let name = takeWhile alnum (drop 10 (c # cs)) in
      if take 10 (c # cs) = ''DataSource'' \<and> name \<noteq> []
      then [''DataSource'' @ name @
              takeWhile (\<lambda>x. x \<noteq> newline) (drop (10 + length name) (c # cs)), name]
      else datasourceRe_FindStringSubmatch cs)"

text \<open>
  The cloud-init executable is outside the program: \<open>lookPath\<close> is \<^verbatim>\<open>exec.LookPath\<close>
  (\<open>None\<close> when the name is not found), \<open>combinedOutput\<close> runs a command and gives its
  output and whether it failed. Every use of either is recorded as an event.
\<close>

record agent =
  lookPath :: "string \<Rightarrow> string option"
  combinedOutput :: "string \<Rightarrow> string list \<Rightarrow> string \<times> bool"

datatype event = LookPath string | RunCommand string "string list"

definition CloudInitStatus ::
  "string \<Rightarrow> agent \<Rightarrow> filesys \<Rightarrow> (CloudInitState \<times> error option) \<times> event list" where
  "CloudInitStatus GlobalRootDir ag fs =
     (if FileExists fs (Join (path_of GlobalRootDir) cloudInitSnapdRestrictFile)
      then ((CloudInitRestrictedBySnapd, None), [])
      else if FileExists fs (Join (path_of GlobalRootDir) cloudInitDisabledFile)
      then ((CloudInitDisabledPermanently, None), [])
      else
        (case lookPath ag ''cloud-init'' of
           None \<Rightarrow> ((CloudInitNotFound, None), [LookPath ''cloud-init''])
         | Some ciBinary \<Rightarrow>
             (let (out, failed) = combinedOutput ag ciBinary [''status''];
                  trace = [LookPath ''cloud-init'', RunCommand ciBinary [''status'']]
              in if failed then ((CloudInitErrored, Some (CommandFailed out)), trace)
                 else
                   (case cloudInitStatusRe_FindSubmatch out of
                      [whole, word] \<Rightarrow>
                        (if word = ''disabled'' then ((CloudInitUntriggered, None), trace)
                         else if word = ''error'' then ((CloudInitErrored, None), trace)
                         else if word = ''done'' then ((CloudInitDone, None), trace)
                         else ((CloudInitEnabled, None), trace))
                    | _ \<Rightarrow> ((CloudInitErrored, Some (InvalidOutput out)), trace)))))"

section \<open>Restricting cloud-init\<close>

record v1Data =
  DataSource :: string

record cloudInitStatus =
  V1 :: v1Data

record CloudInitRestrictionResult =
  Action :: string
  DataSource :: string

record CloudInitRestrictOptions =
  ForceDisable :: bool
  DisableAfterLocalDatasourcesRun :: bool

text \<open>
  The part of \<^verbatim>\<open>RestrictCloudInit\<close> after the switch on the state: the "restrict"
  action. \<open>jsonDecode\<close> is the decoder of \<^verbatim>\<open>encoding/json\<close> for the results record
  (\<open>None\<close> when the content cannot be decoded; a missing field decodes to the empty
  string).
\<close>

definition restrictAction ::
  "string \<Rightarrow> (string \<Rightarrow> cloudInitStatus option) \<Rightarrow> CloudInitRestrictOptions \<Rightarrow> filesys
     \<Rightarrow> (CloudInitRestrictionResult \<times> error option) \<times> filesys" where
  "restrictAction GlobalRootDir jsonDecode opts fs =
     (let res = \<lparr>Action = ''restrict'', DataSource = []\<rparr>;
          resultsFile = Join (path_of GlobalRootDir) [''run'', ''cloud-init'', ''status.json'']
      in if \<not> FileExists fs resultsFile then ((res, Some OpenError), fs)
      else
        (case Option.bind (ReadFile resultsFile fs) jsonDecode of
           None \<Rightarrow> ((res, Some DecodeError), fs)
         | Some stat \<Rightarrow>
             (let datasourceRaw = v1Data.DataSource (V1 stat) in
              if datasourceRaw = [] then ((res, Some MissingDatasource), fs)
              else
                (case datasourceRe_FindStringSubmatch datasourceRaw of
                   [whole, name] \<Rightarrow>
                     (let res = res\<lparr>DataSource := name\<rparr>;
                          cloudInitRestrictFile =
                            Join (path_of GlobalRootDir) cloudInitSnapdRestrictFile
                      in if DisableAfterLocalDatasourcesRun opts \<and> name \<in> set localDatasources
                         then
                           (case DisableCloudInit (path_of GlobalRootDir) fs of
                              (err, fs') \<Rightarrow> ((res\<lparr>Action := ''disable''\<rparr>, err), fs'))
                         else if name = ''NoCloud''
                         then
                           (case WriteFile cloudInitRestrictFile nocloudRestrictYaml fs of
                              (ok, fs') \<Rightarrow>
                                ((res, if ok then None else Some WriteError), fs'))
                         else
                           (case WriteFile cloudInitRestrictFile
                                   (genericCloudRestrictYaml name) fs of
                              (ok, fs') \<Rightarrow>
                                ((res, if ok then None else Some WriteError), fs')))
                 | _ \<Rightarrow> ((res, Some (UnexpectedDatasourceFormat datasourceRaw)), fs)))))"

text \<open>
  The "disable" action of the switch: \<^verbatim>\<open>DisableCloudInit\<close> on the root, its error
  returned next to the outcome.
\<close>

definition disableAction ::
  "string \<Rightarrow> filesys \<Rightarrow> (CloudInitRestrictionResult \<times> error option) \<times> filesys" where
  "disableAction GlobalRootDir fs =
     (case DisableCloudInit (path_of GlobalRootDir) fs of
        (err, fs') \<Rightarrow> ((\<lparr>Action = ''disable'', DataSource = []\<rparr>, err), fs'))"

text \<open>
  \<^verbatim>\<open>RestrictCloudInit\<close>. A nil \<open>opts\<close> is \<open>None\<close> and stands for the options with
  both flags false. The result keeps the pair the Go function returns: the outcome
  record is returned next to the error, also when there is an error.
\<close>

definition RestrictCloudInit ::
  "string \<Rightarrow> (string \<Rightarrow> cloudInitStatus option) \<Rightarrow> CloudInitState
     \<Rightarrow> CloudInitRestrictOptions option \<Rightarrow> filesys
     \<Rightarrow> (CloudInitRestrictionResult \<times> error option) \<times> filesys" where
  "RestrictCloudInit GlobalRootDir jsonDecode state opts0 fs =
     (let res = \<lparr>Action = [], DataSource = []\<rparr>;
          opts = (case opts0 of
                    None \<Rightarrow> \<lparr>ForceDisable = False, DisableAfterLocalDatasourcesRun = False\<rparr>
                  | Some o1 \<Rightarrow> o1)
      in case state of
           CloudInitDone \<Rightarrow> restrictAction GlobalRootDir jsonDecode opts fs
         | CloudInitRestrictedBySnapd \<Rightarrow> ((res, Some AlreadyRestricted), fs)
         | CloudInitDisabledPermanently \<Rightarrow> ((res, Some AlreadyDisabled), fs)
         | CloudInitErrored \<Rightarrow>
             (if \<not> ForceDisable opts then ((res, Some ErrorOrEnabledState), fs)
              else disableAction GlobalRootDir fs)
         | CloudInitEnabled \<Rightarrow>
             (if \<not> ForceDisable opts then ((res, Some ErrorOrEnabledState), fs)
              else disableAction GlobalRootDir fs)
         | CloudInitUntriggered \<Rightarrow> disableAction GlobalRootDir fs
         | CloudInitNotFound \<Rightarrow> disableAction GlobalRootDir fs)"

section \<open>Datasources in use\<close>

text \<open>
  A Go slice is \<open>None\<close> when it is nil and \<open>Some xs\<close> otherwise; \<open>elems\<close> gives its
  elements, and \<open>appendAll\<close> is a run of \<^verbatim>\<open>append\<close> calls, one for each element.
\<close>

type_synonym 'a slice = "'a list option"

definition elems :: "'a slice \<Rightarrow> 'a list" where
  "elems s = (case s of None \<Rightarrow> [] | Some xs \<Rightarrow> xs)"

definition appendAll :: "'a slice \<Rightarrow> 'a list \<Rightarrow> 'a slice" where
  "appendAll s xs = (if xs = [] then s else Some (elems s @ xs))"

record supportedFilteredDatasource =
  ConsumerKey :: string
  MetadataURL :: string
  TokenKey :: string
  TokenSecret :: string

record supportedFilteredReporting =
  Type :: string
  Endpoint :: string
  ConsumerKey :: string
  TokenKey :: string
  TokenSecret :: string

text \<open>
  The parsed configuration. The Go maps are association lists (the entries in any
  order); \<open>DatasourceList\<close> is a pointer: \<open>None\<close> when the field is absent.
\<close>

record supportedFilteredCloudConfig =
  Datasource :: "(string \<times> supportedFilteredDatasource) list"
  Network :: "(string \<times> string) list"
  DatasourceList :: "string list option"
  Reporting :: "(string \<times> supportedFilteredReporting) list"

record cloudDatasourcesInUseResult =
  ExplicitlyAllowed :: "string slice"
  ExplicitlyNoneAllowed :: bool
  Mentioned :: "string slice"

text \<open>
  The body of \<^verbatim>\<open>cloudDatasourcesInUse\<close> after parsing. \<open>toUpper\<close> is
  \<^verbatim>\<open>strings.ToUpper\<close>. A \<^verbatim>\<open>map[string]bool\<close> used as a set is the list of the
  names put into it; its keys are that list without duplicates (Go visits them in
  no fixed order, and the results are sorted afterwards).
\<close>

definition datasourcesInUse ::
  "(string \<Rightarrow> string) \<Rightarrow> supportedFilteredCloudConfig \<Rightarrow> cloudDatasourcesInUseResult" where
  "datasourcesInUse toUpper cfg =
     (let res = \<lparr>ExplicitlyAllowed = None, ExplicitlyNoneAllowed = False, Mentioned = None\<rparr>;
          sourcesMentionedInCfg =
            map (\<lambda>ds. toUpper (fst ds)) (Datasource cfg) @
            map (\<lambda>ds. toUpper (fst ds)) (Reporting cfg);
          (res, sourcesMentionedInCfg) =
            (case DatasourceList cfg of
               None \<Rightarrow> (res, sourcesMentionedInCfg)
             | Some l \<Rightarrow>
                 if length l = 0 then (res\<lparr>ExplicitlyNoneAllowed := True\<rparr>, sourcesMentionedInCfg)
                 else
                   (let explicitlyAllowed = map toUpper l in
                    (res\<lparr>ExplicitlyAllowed :=
                           Some (sort (elems (appendAll (Some []) (remdups explicitlyAllowed))))\<rparr>,
                     sourcesMentionedInCfg @ map toUpper l)))
      in res\<lparr>Mentioned :=
               map_option sort
                 (appendAll (Mentioned res) (map toUpper (remdups sourcesMentionedInCfg)))\<rparr>)"

text \<open>
  \<^verbatim>\<open>cloudDatasourcesInUse\<close>: \<open>yamlUnmarshal\<close> is the parser of the yaml library for
  \<open>supportedFilteredCloudConfig\<close> (\<open>None\<close> when the document does not parse).
\<close>

definition cloudDatasourcesInUse ::
  "(string \<Rightarrow> string) \<Rightarrow> (string \<Rightarrow> supportedFilteredCloudConfig option) \<Rightarrow> filesys \<Rightarrow> path
     \<Rightarrow> error + cloudDatasourcesInUseResult" where
  "cloudDatasourcesInUse toUpper yamlUnmarshal fs configFile =
     (case ReadFile configFile fs of
        None \<Rightarrow> Inl ReadError
      | Some b \<Rightarrow>
          (case yamlUnmarshal b of
             None \<Rightarrow> Inl YamlError
           | Some cfg \<Rightarrow> Inr (datasourcesInUse toUpper cfg)))"

section \<open>Installing configuration\<close>

text \<open>
  Modelled from the spec: \<^verbatim>\<open>osutil.CopyFile\<close> is not among the sources. The file is
  copied verbatim. The spec does not say whether copying onto a name that exists fails;
  \<open>excl\<close> is true when it does.
\<close>

definition CopyFile :: "bool \<Rightarrow> path \<Rightarrow> path \<Rightarrow> filesys \<Rightarrow> bool \<times> filesys" where
  "CopyFile excl src dst fs =
     (case ReadFile src fs of
        None \<Rightarrow> (False, fs)
      | Some content \<Rightarrow>
          if excl \<and> FileExists fs dst then (False, fs) else WriteFile dst content fs)"

definition HasGadgetCloudConf :: "path \<Rightarrow> filesys \<Rightarrow> bool" where
  "HasGadgetCloudConf gadgetDir fs = FileExists fs (Join gadgetDir [''cloud.conf''])"

record cloudInitConfigInstallOptions =
  Prefix :: string
  Filter :: bool
  AllowedDatasources :: "string list"

text \<open>
  \<^verbatim>\<open>filepath.Glob(filepath.Join(src, "*.cfg"))\<close>: the entries of the directory \<open>src\<close>
  whose name ends in \<^verbatim>\<open>.cfg\<close>, in the order of their names (\<open>src\<close> is taken to
  contain no pattern character, so the pattern is never malformed).
\<close>

definition hasSuffix :: "string \<Rightarrow> string \<Rightarrow> bool" where
  "hasSuffix s suffix =
     (length suffix \<le> length s \<and> drop (length s - length suffix) s = suffix)"

definition GlobCfg :: "filesys \<Rightarrow> path \<Rightarrow> path list" where
  "GlobCfg fs src =
     sort (remdups (filter (\<lambda>p. p \<noteq> [] \<and> butlast p = src \<and> hasSuffix (last p) ''.cfg'')
                      (map fst (files fs) @ dirs fs)))"

fun copyAll :: "bool \<Rightarrow> path \<Rightarrow> string \<Rightarrow> path list \<Rightarrow> filesys \<Rightarrow> error option \<times> filesys" where
  "copyAll excl dir prefix [] fs = (None, fs)"
| "copyAll excl dir prefix (cc # ccl) fs =
     (case CopyFile excl cc (Join dir [prefix @ last cc]) fs of
        (False, fs') \<Rightarrow> (Some CopyError, fs')
      | (True, fs') \<Rightarrow> copyAll excl dir prefix ccl fs')"

definition installCloudInitCfgDir ::
  "bool \<Rightarrow> path \<Rightarrow> path \<Rightarrow> cloudInitConfigInstallOptions option \<Rightarrow> filesys
     \<Rightarrow> error option \<times> filesys" where
  "installCloudInitCfgDir excl src targetdir opts0 fs =
     (let opts = (case opts0 of
                    None \<Rightarrow> \<lparr>Prefix = [], Filter = False, AllowedDatasources = []\<rparr>
                  | Some o1 \<Rightarrow> o1);
          ccl = GlobCfg fs src
      in if length ccl = 0 then (None, fs)
         else
           (let ubuntuDataCloudCfgDir = Join (ubuntuDataCloudDir targetdir) [''cloud.cfg.d'']
            in case MkdirAll ubuntuDataCloudCfgDir fs of
                 (False, fs1) \<Rightarrow> (Some CannotMakeCloudConfigDir, fs1)
               | (True, fs1) \<Rightarrow> copyAll excl ubuntuDataCloudCfgDir (Prefix opts) ccl fs1))"

definition installGadgetCloudInitCfg ::
  "bool \<Rightarrow> (string \<Rightarrow> string) \<Rightarrow> (string \<Rightarrow> supportedFilteredCloudConfig option)
     \<Rightarrow> path \<Rightarrow> path \<Rightarrow> filesys \<Rightarrow> (error + cloudDatasourcesInUseResult) \<times> filesys" where
  "installGadgetCloudInitCfg excl toUpper yamlUnmarshal src targetdir fs =
     (let ubuntuDataCloudCfgDir = Join (ubuntuDataCloudDir targetdir) [''cloud.cfg.d'']
      in case MkdirAll ubuntuDataCloudCfgDir fs of
           (False, fs1) \<Rightarrow> (Inl CannotMakeCloudConfigDir, fs1)
         | (True, fs1) \<Rightarrow>
             (case cloudDatasourcesInUse toUpper yamlUnmarshal fs1 src of
                Inl err \<Rightarrow> (Inl err, fs1)
              | Inr datasourcesRes \<Rightarrow>
                  (let configFile = Join ubuntuDataCloudCfgDir [''80_device_gadget.cfg'']
                   in case CopyFile excl src configFile fs1 of
                        (False, fs2) \<Rightarrow> (Inl CopyError, fs2)
                      | (True, fs2) \<Rightarrow> (Inr datasourcesRes, fs2))))"

text \<open>
  Modelled from the spec: the declarations of \<^verbatim>\<open>asserts.Model\<close> and \<^verbatim>\<open>Options\<close> are
  not among the sources. The grade of a model is secured, signed or dangerous, or a
  value that is none of them (\<open>ModelGradeUnset\<close>, which takes the \<^verbatim>\<open>default\<close> branch);
  \<open>Options\<close> has the fields that \<^verbatim>\<open>configureCloudInit\<close> reads. \<open>WritableDefaultsDir\<close>,
  which is not among the sources either, is a parameter: it maps the target root to a
  directory.
\<close>

datatype ModelGrade = ModelGradeUnset | ModelSecured | ModelSigned | ModelDangerous

record Model =
  Grade :: ModelGrade

record Options =
  CloudInitSrcDir :: string
  TargetRootDir :: string
  AllowCloudInit :: bool
  GadgetDir :: string

definition configureCloudInit ::
  "bool \<Rightarrow> (string \<Rightarrow> path) \<Rightarrow> (string \<Rightarrow> string)
     \<Rightarrow> (string \<Rightarrow> supportedFilteredCloudConfig option)
     \<Rightarrow> Model \<Rightarrow> Options \<Rightarrow> filesys \<Rightarrow> error option \<times> filesys" where
  "configureCloudInit excl WritableDefaultsDir toUpper yamlUnmarshal model opts fs =
     (if TargetRootDir opts = [] then (Some MissingTargetDir, fs)
      else if \<not> AllowCloudInit opts
      then DisableCloudInit (WritableDefaultsDir (TargetRootDir opts)) fs
      else
        (let grade = Grade model;
             (gadgetErr, fs1) =
               (if HasGadgetCloudConf (path_of (GadgetDir opts)) fs
                then
                  (let gadgetCloudConf = Join (path_of (GadgetDir opts)) [''cloud.conf'']
                   in case installGadgetCloudInitCfg excl toUpper yamlUnmarshal gadgetCloudConf
                             (WritableDefaultsDir (TargetRootDir opts)) fs of
                        (Inl err, fs') \<Rightarrow> (Some err, fs')
                      | (Inr _, fs') \<Rightarrow> (None, fs'))
                else (None, fs))
         in if gadgetErr \<noteq> None then (gadgetErr, fs1)
            else
              (let installOpts = \<lparr>Prefix = ''90_'', Filter = False, AllowedDatasources = []\<rparr>
               in case grade of
                    ModelSecured \<Rightarrow> (None, fs1)
                  | ModelSigned \<Rightarrow> (None, fs1)
                  | ModelDangerous \<Rightarrow>
                      (if CloudInitSrcDir opts \<noteq> []
                       then installCloudInitCfgDir excl (path_of (CloudInitSrcDir opts))
                              (WritableDefaultsDir (TargetRootDir opts))
                              (Some (installOpts\<lparr>Filter := False\<rparr>)) fs1
                       else (None, fs1))
                  | ModelGradeUnset \<Rightarrow> (Some UnknownGrade, fs1))))"

section \<open>Concrete inputs\<close>

text \<open>
  Inputs for the concrete evaluations below: a stand-in for the JSON decoder that reads
  the datasource field after \<^verbatim>\<open>datasource=\<close> (and \<^verbatim>\<open>{}\<close> as a record without it), an
  agent whose status command prints a given text, and file trees that hold the results
  record, with and without the configuration directories.
\<close>

definition sampleJsonDecode :: "string \<Rightarrow> cloudInitStatus option" where
  "sampleJsonDecode s =
     (if take 11 s = ''datasource='' then Some \<lparr>V1 = \<lparr>v1Data.DataSource = drop 11 s\<rparr>\<rparr>
      else if s = ''{}'' then Some \<lparr>V1 = \<lparr>v1Data.DataSource = []\<rparr>\<rparr>
      else None)"

definition sampleAgent :: "string \<Rightarrow> agent" where
  "sampleAgent out =
     \<lparr>lookPath = (\<lambda>name. Some (''/usr/bin/'' @ name)),
      combinedOutput = (\<lambda>bin args. (out, False))\<rparr>"

definition sampleTree :: "string \<Rightarrow> filesys" where
  "sampleTree record0 =
     \<lparr>files = [([''run'', ''cloud-init'', ''status.json''], record0)],
      dirs = [[''run''], [''run'', ''cloud-init''], [''etc''], [''etc'', ''cloud''],
              [''etc'', ''cloud'', ''cloud.cfg.d'']],
      readonly = False, writeFault = None\<rparr>"

definition bareTree :: "string \<Rightarrow> filesys" where
  "bareTree record0 =
     \<lparr>files = [([''run'', ''cloud-init'', ''status.json''], record0)],
      dirs = [[''run''], [''run'', ''cloud-init'']],
      readonly = False, writeFault = None\<rparr>"

definition restrictedTree :: "string \<Rightarrow> filesys" where
  "restrictedTree record0 =
     \<lparr>files = [([''run'', ''cloud-init'', ''status.json''], record0),
               ([''etc'', ''cloud'', ''cloud.cfg.d'', ''zzzz_snapd.cfg''], nocloudRestrictYaml)],
      dirs = [[''run''], [''run'', ''cloud-init''], [''etc''], [''etc'', ''cloud''],
              [''etc'', ''cloud'', ''cloud.cfg.d'']],
      readonly = False, writeFault = None\<rparr>"

definition readonlyTree :: filesys where
  "readonlyTree =
     \<lparr>files = [],
      dirs = [[''etc''], [''etc'', ''cloud''], [''etc'', ''cloud'', ''cloud.cfg.d'']],
      readonly = True, writeFault = None\<rparr>"

text \<open>
  A stand-in for \<^verbatim>\<open>strings.ToUpper\<close> on ASCII letters, a stand-in for the yaml parser
  that reads a few one-line documents (names separated by commas), and a tree with a
  gadget configuration.
\<close>

definition upperChar :: "char \<Rightarrow> char" where
  "upperChar c =
     (case map_of (zip ''abcdefghijklmnopqrstuvwxyz'' ''ABCDEFGHIJKLMNOPQRSTUVWXYZ'') c of
        None \<Rightarrow> c
      | Some u \<Rightarrow> u)"

definition sampleToUpper :: "string \<Rightarrow> string" where
  "sampleToUpper s = map upperChar s"

definition noSettings :: supportedFilteredDatasource where
  "noSettings =
     \<lparr>supportedFilteredDatasource.ConsumerKey = [], MetadataURL = [],
      supportedFilteredDatasource.TokenKey = [], supportedFilteredDatasource.TokenSecret = []\<rparr>"

definition sampleYamlUnmarshal :: "string \<Rightarrow> supportedFilteredCloudConfig option" where
  "sampleYamlUnmarshal doc =
     (if doc = ''datasource_list: []''
      then Some \<lparr>Datasource = [], Network = [], DatasourceList = Some [], Reporting = []\<rparr>
      else if doc = ''network: {}''
      then Some \<lparr>Datasource = [], Network = [], DatasourceList = None, Reporting = []\<rparr>
      else if take 17 doc = ''datasource_list: ''
      then Some \<lparr>Datasource = [], Network = [],
                 DatasourceList = Some (splitOn CHR '','' [] (drop 17 doc)), Reporting = []\<rparr>
      else if take 12 doc = ''datasource: ''
      then Some \<lparr>Datasource = map (\<lambda>n. (n, noSettings)) (splitOn CHR '','' [] (drop 12 doc)),
                 Network = [], DatasourceList = None, Reporting = []\<rparr>
      else None)"

definition configTree :: "string \<Rightarrow> filesys" where
  "configTree doc =
     \<lparr>files = [([''gadget'', ''cloud.conf''], doc)], dirs = [[''gadget'']], readonly = False, writeFault = None\<rparr>"

text \<open>
  A stand-in for \<^verbatim>\<open>WritableDefaultsDir\<close>, a tree with a gadget configuration and a
  seed area, and options that name them.
\<close>

definition sampleWritableDefaultsDir :: "string \<Rightarrow> path" where
  "sampleWritableDefaultsDir rootdir = Join (path_of rootdir) [''_writable_defaults'']"

definition seedTree :: filesys where
  "seedTree =
     \<lparr>files = [([''gadget'', ''cloud.conf''], ''datasource_list: maas''),
               ([''seed'', ''user.cfg''], ''datasource_list: NoCloud'')],
      dirs = [[''gadget''], [''seed''], [''target'']],
      readonly = False, writeFault = None\<rparr>"

definition sampleOptions :: Options where
  "sampleOptions =
     \<lparr>CloudInitSrcDir = ''/seed'', TargetRootDir = ''/target'', AllowCloudInit = True,
      GadgetDir = ''/gadget''\<rparr>"

section \<open>Properties of the file tree\<close>

lemma mkdirs_files:
  "mkdirs pre p fs = (ok, fs') \<Longrightarrow> files fs' = files fs \<and> readonly fs' = readonly fs"
  by (induction pre p fs rule: mkdirs.induct) (auto simp: Let_def split: if_splits)

lemma mkdirs_dirs_mono:
  "mkdirs pre p fs = (ok, fs') \<Longrightarrow> q \<in> set (dirs fs) \<Longrightarrow> q \<in> set (dirs fs')"
  by (induction pre p fs rule: mkdirs.induct) (auto simp: Let_def split: if_splits)

lemma mkdirs_new_dirs:
  "mkdirs pre p fs = (ok, fs') \<Longrightarrow> q \<in> set (dirs fs') \<Longrightarrow>
     q \<in> set (dirs fs) \<or> length q \<le> length pre + length p"
  by (induction pre p fs rule: mkdirs.induct) (auto simp: Let_def split: if_splits)

lemma mkdirs_is_dir:
  "mkdirs pre p fs = (True, fs') \<Longrightarrow> is_dir fs pre \<Longrightarrow> is_dir fs' (pre @ p)"
proof (induction pre p fs rule: mkdirs.induct)
  case (1 pre fs)
  then show ?case by simp
next
  case (2 pre c cs fs)
  then show ?case
    by (auto simp: Let_def is_dir_def split: if_splits)
qed

lemma WriteFile_ok:
  "WriteFile p content fs = (True, fs') \<Longrightarrow>
     map_of (files fs') = (map_of (files fs))(p \<mapsto> content) \<and> dirs fs' = dirs fs
     \<and> readonly fs' = readonly fs"
  by (auto simp: WriteFile_def update_conv' split: if_splits option.splits)

lemma WriteFile_dirs: "WriteFile p content fs = (ok, fs') \<Longrightarrow> dirs fs' = dirs fs"
  by (auto simp: WriteFile_def split: if_splits option.splits)

lemma WriteFile_other:
  "WriteFile p content fs = (ok, fs') \<Longrightarrow> q \<noteq> p \<Longrightarrow> map_of (files fs') q = map_of (files fs) q"
  by (auto simp: WriteFile_def update_conv' split: if_splits option.splits)

lemma DisableCloudInit_written:
  assumes "DisableCloudInit r fs = (None, fs')"
  shows "map_of (files fs') (Join r cloudInitDisabledFile) = Some []"
  using assms
  by (auto simp: DisableCloudInit_def Let_def ubuntuDataCloudDir_def Join_def
        cloudInitDisabledFile_def
      split: prod.splits bool.splits dest!: WriteFile_ok)

lemma DisableCloudInit_files:
  assumes "DisableCloudInit r fs = (e, fs')" and "q \<noteq> Join r cloudInitDisabledFile"
  shows "map_of (files fs') q = map_of (files fs) q"
proof -
  let ?c = "ubuntuDataCloudDir r"
  obtain ok fs1 where m: "MkdirAll ?c fs = (ok, fs1)" by (cases "MkdirAll ?c fs")
  then have f1: "files fs1 = files fs" by (simp add: MkdirAll_def mkdirs_files)
  obtain ok2 fs2 where w: "WriteFile (Join ?c [''cloud-init.disabled'']) [] fs1 = (ok2, fs2)"
    by (cases "WriteFile (Join ?c [''cloud-init.disabled'']) [] fs1")
  from assms(2) have ne: "q \<noteq> Join ?c [''cloud-init.disabled'']"
    by (simp add: ubuntuDataCloudDir_def Join_def cloudInitDisabledFile_def)
  from assms(1) m w have "fs' = fs1 \<or> fs' = fs2"
    by (cases ok; cases ok2) (simp_all add: DisableCloudInit_def Let_def)
  with f1 WriteFile_other [OF w ne] show ?thesis by auto
qed

lemma DisableCloudInit_dirs:
  assumes "DisableCloudInit r fs = (e, fs')"
  shows "\<exists>ok. mkdirs [] (ubuntuDataCloudDir r) fs = (ok, fs'\<lparr>files := files fs\<rparr>)"
proof -
  let ?c = "ubuntuDataCloudDir r"
  obtain ok fs1 where m: "MkdirAll ?c fs = (ok, fs1)" by (cases "MkdirAll ?c fs")
  then have f1: "files fs1 = files fs" by (simp add: MkdirAll_def mkdirs_files)
  obtain ok2 fs2 where w: "WriteFile (Join ?c [''cloud-init.disabled'']) [] fs1 = (ok2, fs2)"
    by (cases "WriteFile (Join ?c [''cloud-init.disabled'']) [] fs1")
  from w have f2: "fs2\<lparr>files := files fs1\<rparr> = fs1"
    by (auto simp: WriteFile_def split: if_splits option.splits)
  from assms m w have "fs' = fs1 \<or> fs' = fs2"
    by (cases ok; cases ok2) (simp_all add: DisableCloudInit_def Let_def)
  with f1 f2 have "fs'\<lparr>files := files fs\<rparr> = fs1" by auto
  with m show ?thesis by (auto simp: MkdirAll_def)
qed

lemma DisableCloudInit_dirs_mono:
  assumes "DisableCloudInit r fs = (e, fs')" and "q \<in> set (dirs fs)"
  shows "q \<in> set (dirs fs')"
proof -
  from DisableCloudInit_dirs [OF assms(1)]
  obtain ok where "mkdirs [] (ubuntuDataCloudDir r) fs = (ok, fs'\<lparr>files := files fs\<rparr>)" by blast
  from mkdirs_dirs_mono [OF this assms(2)] show ?thesis by simp
qed

lemma DisableCloudInit_new_dirs:
  assumes "DisableCloudInit r fs = (e, fs')" and "q \<in> set (dirs fs')"
  shows "q \<in> set (dirs fs) \<or> length q \<le> length r + 2"
proof -
  from DisableCloudInit_dirs [OF assms(1)]
  obtain ok where "mkdirs [] (ubuntuDataCloudDir r) fs = (ok, fs'\<lparr>files := files fs\<rparr>)" by blast
  from mkdirs_new_dirs [OF this, of q] assms(2) show ?thesis
    by (simp add: ubuntuDataCloudDir_def Join_def)
qed

lemma WriteFile_exists:
  "WriteFile p content fs = (True, fs') \<Longrightarrow> FileExists fs' p \<and> ReadFile p fs' = Some content"
  by (auto simp: FileExists_def is_file_def ReadFile_def dest!: WriteFile_ok)

section \<open>Restriction after a run on NoCloud\<close>

text \<open>
  Claim C1, as amended. A call of \<^verbatim>\<open>RestrictCloudInit\<close> in state \<open>CloudInitDone\<close> with
  default options (nil, or both flags false), on a results record whose datasource field
  resolves to \<^verbatim>\<open>NoCloud\<close>, always returns the outcome with action \<^verbatim>\<open>restrict\<close> and
  datasource \<^verbatim>\<open>NoCloud\<close>. When it returns no error, the restriction file
  \<^verbatim>\<open>zzzz_snapd.cfg\<close> holds exactly \<open>nocloudRestrictYaml\<close> (the list pinned to NoCloud,
  \<^verbatim>\<open>fs_label: null\<close>, \<^verbatim>\<open>manual_cache_clean: true\<close>), and a following
  \<^verbatim>\<open>CloudInitStatus\<close> reports \<open>CloudInitRestrictedBySnapd\<close> with an empty trace: neither
  the lookup nor the run of the executable happens.
\<close>

theorem restrict_done_nocloud:
  assumes call: "RestrictCloudInit root dec CloudInitDone opts fs = ((res, err), fs')"
    and dflt: "opts = None \<or>
               opts = Some \<lparr>ForceDisable = False, DisableAfterLocalDatasourcesRun = False\<rparr>"
    and rd: "Option.bind (ReadFile (Join (path_of root) [''run'', ''cloud-init'', ''status.json'']) fs) dec
               = Some stat"
    and ds: "datasourceRe_FindStringSubmatch (v1Data.DataSource (V1 stat)) = [whole, ''NoCloud'']"
  shows "res = \<lparr>Action = ''restrict'', DataSource = ''NoCloud''\<rparr> \<and>
         (err = None \<longrightarrow>
            ReadFile (Join (path_of root) cloudInitSnapdRestrictFile) fs' = Some nocloudRestrictYaml \<and>
            CloudInitStatus root ag fs' = ((CloudInitRestrictedBySnapd, None), []))"
proof -
  let ?rf = "Join (path_of root) cloudInitSnapdRestrictFile"
  from rd have ex: "FileExists fs (Join (path_of root) [''run'', ''cloud-init'', ''status.json''])"
    by (auto simp: FileExists_def is_file_def ReadFile_def split: Option.bind_splits)
  from ds have ne: "v1Data.DataSource (V1 stat) \<noteq> []"
    by auto
  obtain ok fs1 where w: "WriteFile ?rf nocloudRestrictYaml fs = (ok, fs1)"
    by (cases "WriteFile ?rf nocloudRestrictYaml fs")
  from call dflt ex rd ne ds w
  have r: "res = \<lparr>Action = ''restrict'', DataSource = ''NoCloud''\<rparr>"
      and e: "err = (if ok then None else Some WriteError)" and f: "fs' = fs1"
    by (auto simp: RestrictCloudInit_def restrictAction_def Let_def)
  show ?thesis
  proof (cases ok)
    case True
    with w f have "WriteFile ?rf nocloudRestrictYaml fs = (True, fs')" by simp
    from WriteFile_exists [OF this]
    have "FileExists fs' ?rf" "ReadFile ?rf fs' = Some nocloudRestrictYaml" by simp_all
    then show ?thesis using r e True by (simp add: CloudInitStatus_def)
  next
    case False
    then show ?thesis using r e by simp
  qed
qed

theorem restrict_done_nocloud_witness:
  "fst (RestrictCloudInit ''/'' sampleJsonDecode CloudInitDone None
          (sampleTree ''datasource=DataSourceNoCloud [seed=/dev/sr0][dsmode=net]''))
     = (\<lparr>Action = ''restrict'', DataSource = ''NoCloud''\<rparr>, None) \<and>
   ReadFile [''etc'', ''cloud'', ''cloud.cfg.d'', ''zzzz_snapd.cfg'']
     (snd (RestrictCloudInit ''/'' sampleJsonDecode CloudInitDone None
          (sampleTree ''datasource=DataSourceNoCloud [seed=/dev/sr0][dsmode=net]'')))
     = Some nocloudRestrictYaml \<and>
   CloudInitStatus ''/'' (sampleAgent ''status: done'')
     (snd (RestrictCloudInit ''/'' sampleJsonDecode CloudInitDone None
          (sampleTree ''datasource=DataSourceNoCloud [seed=/dev/sr0][dsmode=net]'')))
     = ((CloudInitRestrictedBySnapd, None), [])"
proof -
  let ?fs = "sampleTree ''datasource=DataSourceNoCloud [seed=/dev/sr0][dsmode=net]''"
  let ?r = "RestrictCloudInit ''/'' sampleJsonDecode CloudInitDone None ?fs"
  have p: "path_of ''/'' = []" by (simp add: path_of_def clean_step_def)
  have c: "?r = ((fst (fst ?r), snd (fst ?r)), snd ?r)" by simp
  have e: "snd (fst ?r) = None" by code_simp
  have rd: "Option.bind (ReadFile (Join (path_of ''/'') [''run'', ''cloud-init'', ''status.json'']) ?fs)
              sampleJsonDecode
            = Some \<lparr>V1 = \<lparr>v1Data.DataSource = ''DataSourceNoCloud [seed=/dev/sr0][dsmode=net]''\<rparr>\<rparr>"
    by (simp add: p Join_def ReadFile_def sampleTree_def sampleJsonDecode_def)
  have ds: "datasourceRe_FindStringSubmatch
              (v1Data.DataSource (V1 \<lparr>V1 = \<lparr>v1Data.DataSource = ''DataSourceNoCloud [seed=/dev/sr0][dsmode=net]''\<rparr>\<rparr>))
            = [''DataSourceNoCloud [seed=/dev/sr0][dsmode=net]'', ''NoCloud'']"
    by code_simp
  from restrict_done_nocloud [OF c _ rd ds, of "sampleAgent ''status: done''"] e
  show ?thesis by (simp add: p Join_def cloudInitSnapdRestrictFile_def prod_eq_iff)
qed

text \<open>
  The claim as first stated promises the write for every call. On a tree without the
  directory \<^verbatim>\<open>etc/cloud/cloud.cfg.d\<close> the write fails: the call returns the outcome
  next to a write error, no restriction file exists, and the status is still
  \<open>CloudInitDone\<close>, found by running the executable.
\<close>

theorem restrict_done_nocloud_counterexample:
  "RestrictCloudInit ''/'' sampleJsonDecode CloudInitDone None
       (bareTree ''datasource=DataSourceNoCloud [seed=/dev/sr0][dsmode=net]'')
     = ((\<lparr>Action = ''restrict'', DataSource = ''NoCloud''\<rparr>, Some WriteError),
        bareTree ''datasource=DataSourceNoCloud [seed=/dev/sr0][dsmode=net]'') \<and>
   ReadFile [''etc'', ''cloud'', ''cloud.cfg.d'', ''zzzz_snapd.cfg'']
       (bareTree ''datasource=DataSourceNoCloud [seed=/dev/sr0][dsmode=net]'') = None \<and>
   CloudInitStatus ''/'' (sampleAgent ''status: done'')
       (bareTree ''datasource=DataSourceNoCloud [seed=/dev/sr0][dsmode=net]'')
     = ((CloudInitDone, None), [LookPath ''cloud-init'', RunCommand ''/usr/bin/cloud-init'' [''status'']])"
  by code_simp

text \<open>
  Nothing is said of the tree when the call returns an error: the write may fail after
  the file was created. With a write fault the call returns the write error, the
  restriction file is there, empty, and the status is \<open>CloudInitRestrictedBySnapd\<close>.
\<close>

lemma restrict_write_fault:
  "fst (RestrictCloudInit ''/'' sampleJsonDecode CloudInitDone None
          ((sampleTree ''datasource=DataSourceNoCloud'')\<lparr>writeFault := Some 0\<rparr>))
     = (\<lparr>Action = ''restrict'', DataSource = ''NoCloud''\<rparr>, Some WriteError) \<and>
   ReadFile [''etc'', ''cloud'', ''cloud.cfg.d'', ''zzzz_snapd.cfg'']
     (snd (RestrictCloudInit ''/'' sampleJsonDecode CloudInitDone None
          ((sampleTree ''datasource=DataSourceNoCloud'')\<lparr>writeFault := Some 0\<rparr>))) = Some [] \<and>
   CloudInitStatus ''/'' (sampleAgent ''status: done'')
     (snd (RestrictCloudInit ''/'' sampleJsonDecode CloudInitDone None
          ((sampleTree ''datasource=DataSourceNoCloud'')\<lparr>writeFault := Some 0\<rparr>)))
     = ((CloudInitRestrictedBySnapd, None), [])"
  by code_simp

section \<open>Markers and the second call\<close>

lemma DisableCloudInit_exists:
  assumes "DisableCloudInit r fs = (None, fs')"
  shows "FileExists fs' (Join r cloudInitDisabledFile)"
  using DisableCloudInit_written [OF assms] by (simp add: FileExists_def is_file_def)

lemma DisableCloudInit_restrict_file:
  assumes "DisableCloudInit r fs = (e, fs')"
  shows "FileExists fs' (Join r cloudInitSnapdRestrictFile)
           = FileExists fs (Join r cloudInitSnapdRestrictFile)"
proof -
  let ?p = "Join r cloudInitSnapdRestrictFile"
  have ne: "?p \<noteq> Join r cloudInitDisabledFile"
    by (simp add: Join_def cloudInitSnapdRestrictFile_def cloudInitDisabledFile_def)
  have len: "length ?p = length r + 4"
    by (simp add: Join_def cloudInitSnapdRestrictFile_def)
  have f: "is_file fs' ?p = is_file fs ?p"
    using DisableCloudInit_files [OF assms ne] by (simp add: is_file_def)
  have "?p \<in> set (dirs fs') \<longleftrightarrow> ?p \<in> set (dirs fs)"
    using DisableCloudInit_dirs_mono [OF assms, of ?p] DisableCloudInit_new_dirs [OF assms, of ?p] len
    by auto
  then have d: "is_dir fs' ?p = is_dir fs ?p"
    by (simp add: is_dir_def)
  show ?thesis by (simp add: FileExists_def f d)
qed

lemma restrictAction_marker:
  assumes "restrictAction root dec opts fs = ((res, None), fs')"
  shows "(Action res = ''restrict'' \<and> FileExists fs' (Join (path_of root) cloudInitSnapdRestrictFile))
       \<or> (Action res = ''disable'' \<and> FileExists fs' (Join (path_of root) cloudInitDisabledFile))"
  using assms
  by (auto simp: restrictAction_def Let_def
      split: if_splits option.splits list.splits prod.splits
      dest: WriteFile_exists DisableCloudInit_exists)

lemma disableAction_marker:
  assumes "disableAction root fs = ((res, None), fs')"
  shows "Action res = ''disable'' \<and> FileExists fs' (Join (path_of root) cloudInitDisabledFile)"
  using assms
  by (auto simp: disableAction_def split: prod.splits dest: DisableCloudInit_exists)

lemma RestrictCloudInit_marker:
  assumes "RestrictCloudInit root dec st opts fs = ((res, None), fs')"
  shows "(Action res = ''restrict'' \<and> FileExists fs' (Join (path_of root) cloudInitSnapdRestrictFile))
       \<or> (Action res = ''disable'' \<and> FileExists fs' (Join (path_of root) cloudInitDisabledFile))"
  using assms
  by (cases st)
     (auto simp: RestrictCloudInit_def Let_def split: if_splits
       dest: restrictAction_marker disableAction_marker)

text \<open>
  Claim C3. Whenever a first call of \<^verbatim>\<open>RestrictCloudInit\<close> returns without error, in
  any state and with any options, it took the restrict or the disable action, and the
  marker file it wrote makes \<^verbatim>\<open>CloudInitStatus\<close> report \<open>CloudInitRestrictedBySnapd\<close>
  or \<open>CloudInitDisabledPermanently\<close>, without error and without running the executable.
  A second call with that state, whatever its decoder and options, returns an error
  (already restricted, or already disabled) and leaves the tree as it is.
\<close>

theorem second_restrict_errors:
  assumes first: "RestrictCloudInit root dec st opts fs = ((res, None), fs')"
    and status: "CloudInitStatus root ag fs' = ((st', e), tr)"
  shows "(Action res = ''restrict'' \<or> Action res = ''disable'') \<and>
         (st' = CloudInitRestrictedBySnapd \<or> st' = CloudInitDisabledPermanently) \<and>
         e = None \<and> tr = [] \<and>
         RestrictCloudInit root dec' st' opts' fs' =
           ((\<lparr>Action = [], DataSource = []\<rparr>,
             Some (if st' = CloudInitRestrictedBySnapd then AlreadyRestricted else AlreadyDisabled)),
            fs')"
proof -
  from RestrictCloudInit_marker [OF first]
  have a: "Action res = ''restrict'' \<or> Action res = ''disable''"
    and m: "FileExists fs' (Join (path_of root) cloudInitSnapdRestrictFile)
          \<or> FileExists fs' (Join (path_of root) cloudInitDisabledFile)"
    by auto
  from m status
  have s: "(st' = CloudInitRestrictedBySnapd \<or> st' = CloudInitDisabledPermanently) \<and>
           e = None \<and> tr = []"
    by (auto simp: CloudInitStatus_def split: if_splits)
  then have "RestrictCloudInit root dec' st' opts' fs' =
           ((\<lparr>Action = [], DataSource = []\<rparr>,
             Some (if st' = CloudInitRestrictedBySnapd then AlreadyRestricted else AlreadyDisabled)),
            fs')"
    by (auto simp: RestrictCloudInit_def Let_def)
  with a s show ?thesis by simp
qed

theorem second_restrict_errors_witness:
  "RestrictCloudInit ''/'' sampleJsonDecode CloudInitRestrictedBySnapd None
      (snd (RestrictCloudInit ''/'' sampleJsonDecode CloudInitDone None
              (sampleTree ''datasource=DataSourceGCE'')))
     = ((\<lparr>Action = [], DataSource = []\<rparr>, Some AlreadyRestricted),
        snd (RestrictCloudInit ''/'' sampleJsonDecode CloudInitDone None
              (sampleTree ''datasource=DataSourceGCE'')))"
proof -
  let ?r = "RestrictCloudInit ''/'' sampleJsonDecode CloudInitDone None
              (sampleTree ''datasource=DataSourceGCE'')"
  have "snd (fst ?r) = None" by code_simp
  then have first: "?r = ((fst (fst ?r), None), snd ?r)" by (simp add: prod_eq_iff)
  have status: "CloudInitStatus ''/'' (sampleAgent ''status: done'') (snd ?r)
                  = ((CloudInitRestrictedBySnapd, None), [])"
    by code_simp
  from second_restrict_errors [OF first status, of sampleJsonDecode None]
  show ?thesis by simp
qed

section \<open>Errors of the results record\<close>

lemma datasourceRe_length:
  "datasourceRe_FindStringSubmatch s = [] \<or> length (datasourceRe_FindStringSubmatch s) = 2"
  by (induction s) (auto simp: Let_def)

text \<open>
  Claim C6. In state \<open>CloudInitDone\<close>, with any options: when the results record
  \<^verbatim>\<open>run/cloud-init/status.json\<close> is missing, cannot be read or decoded, has an empty
  datasource field, or has a field that the pattern does not match (the match does not
  have two elements), the call returns an error and the tree is exactly as before: no
  marker file is written, and \<^verbatim>\<open>CloudInitStatus\<close> gives what it gave before.
\<close>

theorem results_record_errors:
  assumes call: "RestrictCloudInit root dec CloudInitDone opts fs = ((res, err), fs')"
    and bad: "\<not> FileExists fs (Join (path_of root) [''run'', ''cloud-init'', ''status.json'']) \<or>
              Option.bind (ReadFile (Join (path_of root) [''run'', ''cloud-init'', ''status.json'']) fs) dec
                = None \<or>
              (\<exists>stat. Option.bind (ReadFile (Join (path_of root) [''run'', ''cloud-init'', ''status.json'']) fs) dec
                        = Some stat \<and>
                      (v1Data.DataSource (V1 stat) = [] \<or>
                       length (datasourceRe_FindStringSubmatch (v1Data.DataSource (V1 stat))) \<noteq> 2))"
  shows "err \<noteq> None \<and> fs' = fs \<and>
         FileExists fs' (Join (path_of root) cloudInitSnapdRestrictFile)
           = FileExists fs (Join (path_of root) cloudInitSnapdRestrictFile) \<and>
         FileExists fs' (Join (path_of root) cloudInitDisabledFile)
           = FileExists fs (Join (path_of root) cloudInitDisabledFile) \<and>
         CloudInitStatus root ag fs' = CloudInitStatus root ag fs"
proof -
  from call bad have "err \<noteq> None \<and> fs' = fs"
    by (auto simp: RestrictCloudInit_def restrictAction_def Let_def
        split: if_splits option.splits list.splits)
  then show ?thesis by simp
qed


theorem results_record_errors_witness:
  "snd (fst (RestrictCloudInit ''/'' sampleJsonDecode CloudInitDone None
               (sampleTree ''datasource=cloud''))) \<noteq> None \<and>
   snd (RestrictCloudInit ''/'' sampleJsonDecode CloudInitDone None
               (sampleTree ''datasource=cloud'')) = sampleTree ''datasource=cloud''"
proof -
  let ?fs = "sampleTree ''datasource=cloud''"
  let ?r = "RestrictCloudInit ''/'' sampleJsonDecode CloudInitDone None ?fs"
  have c: "?r = ((fst (fst ?r), snd (fst ?r)), snd ?r)" by simp
  have rd: "Option.bind (ReadFile (Join (path_of ''/'') [''run'', ''cloud-init'', ''status.json'']) ?fs)
              sampleJsonDecode
            = Some \<lparr>V1 = \<lparr>v1Data.DataSource = ''cloud''\<rparr>\<rparr>"
    by code_simp
  have len: "length (datasourceRe_FindStringSubmatch
               (v1Data.DataSource (V1 \<lparr>V1 = \<lparr>v1Data.DataSource = ''cloud''\<rparr>\<rparr>))) \<noteq> 2"
    by code_simp
  from rd len
  have bad: "\<not> FileExists ?fs (Join (path_of ''/'') [''run'', ''cloud-init'', ''status.json'']) \<or>
              Option.bind (ReadFile (Join (path_of ''/'') [''run'', ''cloud-init'', ''status.json'']) ?fs)
                 sampleJsonDecode = None \<or>
              (\<exists>stat. Option.bind (ReadFile (Join (path_of ''/'') [''run'', ''cloud-init'', ''status.json'']) ?fs)
                         sampleJsonDecode = Some stat \<and>
                      (v1Data.DataSource (V1 stat) = [] \<or>
                       length (datasourceRe_FindStringSubmatch (v1Data.DataSource (V1 stat))) \<noteq> 2))"
    by blast
  from results_record_errors [OF c bad, of "sampleAgent ''status: done''"]
  show ?thesis by simp
qed

section \<open>Disabling after a local datasource\<close>

text \<open>
  Claim C4, as amended. In state \<open>CloudInitDone\<close> with
  \<open>DisableAfterLocalDatasourcesRun\<close> set, when the datasource resolves to \<^verbatim>\<open>NoCloud\<close> or
  \<^verbatim>\<open>None\<close>, the call returns the outcome with action \<^verbatim>\<open>disable\<close> and that
  datasource. When it returns no error, the empty marker file \<^verbatim>\<open>cloud-init.disabled\<close>
  is there, and a following \<^verbatim>\<open>CloudInitStatus\<close> reports \<open>CloudInitDisabledPermanently\<close>
  unless a restriction file was already present, which it checks first and reports as
  \<open>CloudInitRestrictedBySnapd\<close>; in both cases the executable is not run.
\<close>

theorem disable_after_local:
  assumes call: "RestrictCloudInit root dec CloudInitDone (Some opts) fs = ((res, err), fs')"
    and flag: "DisableAfterLocalDatasourcesRun opts"
    and rd: "Option.bind (ReadFile (Join (path_of root) [''run'', ''cloud-init'', ''status.json'']) fs) dec
               = Some stat"
    and ds: "datasourceRe_FindStringSubmatch (v1Data.DataSource (V1 stat)) = [whole, name]"
    and local: "name = ''NoCloud'' \<or> name = ''None''"
  shows "res = \<lparr>Action = ''disable'', DataSource = name\<rparr> \<and>
         (err = None \<longrightarrow>
            ReadFile (Join (path_of root) cloudInitDisabledFile) fs' = Some [] \<and>
            CloudInitStatus root ag fs' =
              ((if FileExists fs (Join (path_of root) cloudInitSnapdRestrictFile)
                then CloudInitRestrictedBySnapd else CloudInitDisabledPermanently, None), []))"
proof -
  from rd have ex: "FileExists fs (Join (path_of root) [''run'', ''cloud-init'', ''status.json''])"
    by (auto simp: FileExists_def is_file_def ReadFile_def split: Option.bind_splits)
  from ds have ne: "v1Data.DataSource (V1 stat) \<noteq> []"
    by auto
  obtain e1 fs1 where d: "DisableCloudInit (path_of root) fs = (e1, fs1)"
    by (cases "DisableCloudInit (path_of root) fs")
  from call flag ex rd ne ds local d
  have r: "res = \<lparr>Action = ''disable'', DataSource = name\<rparr>" and e: "err = e1" and f: "fs' = fs1"
    by (auto simp: RestrictCloudInit_def restrictAction_def Let_def localDatasources_def)
  have "ReadFile (Join (path_of root) cloudInitDisabledFile) fs' = Some [] \<and>
        CloudInitStatus root ag fs' =
          ((if FileExists fs (Join (path_of root) cloudInitSnapdRestrictFile)
            then CloudInitRestrictedBySnapd else CloudInitDisabledPermanently, None), [])"
    if "err = None"
  proof -
    from that d e f have ok: "DisableCloudInit (path_of root) fs = (None, fs')" by simp
    from DisableCloudInit_written [OF ok] DisableCloudInit_exists [OF ok]
      DisableCloudInit_restrict_file [OF ok]
    show ?thesis by (simp add: ReadFile_def CloudInitStatus_def)
  qed
  with r show ?thesis by simp
qed

theorem disable_after_local_witness:
  "fst (RestrictCloudInit ''/'' sampleJsonDecode CloudInitDone
          (Some \<lparr>ForceDisable = False, DisableAfterLocalDatasourcesRun = True\<rparr>)
          (sampleTree ''datasource=DataSourceNone''))
     = (\<lparr>Action = ''disable'', DataSource = ''None''\<rparr>, None) \<and>
   CloudInitStatus ''/'' (sampleAgent ''status: done'')
     (snd (RestrictCloudInit ''/'' sampleJsonDecode CloudInitDone
          (Some \<lparr>ForceDisable = False, DisableAfterLocalDatasourcesRun = True\<rparr>)
          (sampleTree ''datasource=DataSourceNone'')))
     = ((CloudInitDisabledPermanently, None), [])"
proof -
  let ?fs = "sampleTree ''datasource=DataSourceNone''"
  let ?o = "\<lparr>ForceDisable = False, DisableAfterLocalDatasourcesRun = True\<rparr>"
  let ?r = "RestrictCloudInit ''/'' sampleJsonDecode CloudInitDone (Some ?o) ?fs"
  have c: "?r = ((fst (fst ?r), snd (fst ?r)), snd ?r)" by simp
  have e: "snd (fst ?r) = None" by code_simp
  have flag: "DisableAfterLocalDatasourcesRun ?o" by simp
  have rd: "Option.bind (ReadFile (Join (path_of ''/'') [''run'', ''cloud-init'', ''status.json'']) ?fs)
              sampleJsonDecode
            = Some \<lparr>V1 = \<lparr>v1Data.DataSource = ''DataSourceNone''\<rparr>\<rparr>"
    by code_simp
  have ds: "datasourceRe_FindStringSubmatch
              (v1Data.DataSource (V1 \<lparr>V1 = \<lparr>v1Data.DataSource = ''DataSourceNone''\<rparr>\<rparr>))
            = [''DataSourceNone'', ''None'']"
    by code_simp
  have nr: "\<not> FileExists ?fs (Join (path_of ''/'') cloudInitSnapdRestrictFile)"
    by code_simp
  from disable_after_local [OF c flag rd ds, of "sampleAgent ''status: done''"] e nr
  show ?thesis by (simp add: prod_eq_iff)
qed

text \<open>
  The claim as first stated promises the marker file and \<open>CloudInitDisabledPermanently\<close>
  for every such call. The state is an argument: on a tree that already holds the
  restriction file, the call in state \<open>CloudInitDone\<close> writes the disable marker without
  error, and the status is \<open>CloudInitRestrictedBySnapd\<close>. And the write can fail: on a
  read-only tree the call returns action \<^verbatim>\<open>disable\<close> next to an error and writes
  nothing.
\<close>

theorem disable_after_local_counterexample:
  "fst (RestrictCloudInit ''/'' sampleJsonDecode CloudInitDone
          (Some \<lparr>ForceDisable = False, DisableAfterLocalDatasourcesRun = True\<rparr>)
          (restrictedTree ''datasource=DataSourceNoCloud''))
     = (\<lparr>Action = ''disable'', DataSource = ''NoCloud''\<rparr>, None) \<and>
   ReadFile [''etc'', ''cloud'', ''cloud-init.disabled'']
     (snd (RestrictCloudInit ''/'' sampleJsonDecode CloudInitDone
          (Some \<lparr>ForceDisable = False, DisableAfterLocalDatasourcesRun = True\<rparr>)
          (restrictedTree ''datasource=DataSourceNoCloud''))) = Some [] \<and>
   CloudInitStatus ''/'' (sampleAgent ''status: done'')
     (snd (RestrictCloudInit ''/'' sampleJsonDecode CloudInitDone
          (Some \<lparr>ForceDisable = False, DisableAfterLocalDatasourcesRun = True\<rparr>)
          (restrictedTree ''datasource=DataSourceNoCloud'')))
     = ((CloudInitRestrictedBySnapd, None), []) \<and>
   RestrictCloudInit ''/'' sampleJsonDecode CloudInitDone
          (Some \<lparr>ForceDisable = False, DisableAfterLocalDatasourcesRun = True\<rparr>)
          ((sampleTree ''datasource=DataSourceNoCloud'')\<lparr>readonly := True\<rparr>)
     = ((\<lparr>Action = ''disable'', DataSource = ''NoCloud''\<rparr>, Some CannotDisableCloudInit),
        (sampleTree ''datasource=DataSourceNoCloud'')\<lparr>readonly := True\<rparr>) \<and>
   \<not> FileExists ((sampleTree ''datasource=DataSourceNoCloud'')\<lparr>readonly := True\<rparr>)
        [''etc'', ''cloud'', ''cloud-init.disabled'']"
  by code_simp

section \<open>Restriction after a run on a cloud datasource\<close>

lemma datasourceRe_Ec2:
  "datasourceRe_FindStringSubmatch (''DataSourceEc2 [seed='' @ seed @ '']'')
     = [''DataSourceEc2 [seed='' @ takeWhile (\<lambda>x. x \<noteq> newline) (seed @ '']''), ''Ec2'']"
  by (simp add: alnum_def Let_def newline_def)

text \<open>
  Claim C5. In state \<open>CloudInitDone\<close> with default options, when the datasource field of
  the results record is \<^verbatim>\<open>DataSourceEc2 [seed=...]\<close> (any text for the dots), the pattern
  extracts \<^verbatim>\<open>Ec2\<close>, and the call is exactly one write of the restriction file with the
  single line \<^verbatim>\<open>datasource_list: [Ec2]\<close>: the outcome is action \<^verbatim>\<open>restrict\<close> with
  datasource \<^verbatim>\<open>Ec2\<close>, and a file written without error holds that line and nothing
  else (no \<^verbatim>\<open>fs_label\<close>, no \<^verbatim>\<open>manual_cache_clean\<close>).
\<close>

theorem restrict_done_ec2:
  assumes dflt: "opts = None \<or>
               opts = Some \<lparr>ForceDisable = False, DisableAfterLocalDatasourcesRun = False\<rparr>"
    and rd: "Option.bind (ReadFile (Join (path_of root) [''run'', ''cloud-init'', ''status.json'']) fs) dec
               = Some stat"
    and raw: "v1Data.DataSource (V1 stat) = ''DataSourceEc2 [seed='' @ seed @ '']''"
  shows "datasourceRe_FindStringSubmatch (v1Data.DataSource (V1 stat)) ! 1 = ''Ec2'' \<and>
         RestrictCloudInit root dec CloudInitDone opts fs =
           (case WriteFile (Join (path_of root) cloudInitSnapdRestrictFile)
                   (''datasource_list: [Ec2]'' @ [newline]) fs of
              (ok, fs') \<Rightarrow>
                ((\<lparr>Action = ''restrict'', DataSource = ''Ec2''\<rparr>,
                  if ok then None else Some WriteError), fs')) \<and>
         (snd (fst (RestrictCloudInit root dec CloudInitDone opts fs)) = None \<longrightarrow>
            ReadFile (Join (path_of root) cloudInitSnapdRestrictFile)
              (snd (RestrictCloudInit root dec CloudInitDone opts fs))
              = Some (''datasource_list: [Ec2]'' @ [newline]))"
proof -
  let ?rf = "Join (path_of root) cloudInitSnapdRestrictFile"
  let ?y = "''datasource_list: [Ec2]'' @ [newline]"
  from rd have ex: "FileExists fs (Join (path_of root) [''run'', ''cloud-init'', ''status.json''])"
    by (auto simp: FileExists_def is_file_def ReadFile_def split: Option.bind_splits)
  have m: "datasourceRe_FindStringSubmatch (v1Data.DataSource (V1 stat))
             = [''DataSourceEc2 [seed='' @ takeWhile (\<lambda>x. x \<noteq> newline) (seed @ '']''), ''Ec2'']"
    unfolding raw by (rule datasourceRe_Ec2)
  have ne: "v1Data.DataSource (V1 stat) \<noteq> []" by (simp add: raw)
  from dflt ex rd ne m
  have call: "RestrictCloudInit root dec CloudInitDone opts fs =
           (case WriteFile ?rf ?y fs of
              (ok, fs') \<Rightarrow>
                ((\<lparr>Action = ''restrict'', DataSource = ''Ec2''\<rparr>,
                  if ok then None else Some WriteError), fs'))"
    by (auto simp: RestrictCloudInit_def restrictAction_def Let_def localDatasources_def
          genericCloudRestrictYaml_def)
  obtain ok fs1 where w: "WriteFile ?rf ?y fs = (ok, fs1)"
    by (cases "WriteFile ?rf ?y fs")
  have written: "snd (fst (RestrictCloudInit root dec CloudInitDone opts fs)) = None \<longrightarrow>
            ReadFile ?rf (snd (RestrictCloudInit root dec CloudInitDone opts fs)) = Some ?y"
  proof (cases ok)
    case True
    with w have "WriteFile ?rf ?y fs = (True, fs1)" by simp
    from WriteFile_exists [OF this] have "ReadFile ?rf fs1 = Some ?y" by simp
    then show ?thesis unfolding call w by simp
  next
    case False
    then show ?thesis unfolding call w by simp
  qed
  have "datasourceRe_FindStringSubmatch (v1Data.DataSource (V1 stat)) ! 1 = ''Ec2''"
    unfolding m by simp
  with call written show ?thesis by blast
qed

theorem restrict_done_ec2_witness:
  "RestrictCloudInit ''/'' sampleJsonDecode CloudInitDone None
       (sampleTree ''datasource=DataSourceEc2 [seed=...]'')
     = ((\<lparr>Action = ''restrict'', DataSource = ''Ec2''\<rparr>, None),
        (sampleTree ''datasource=DataSourceEc2 [seed=...]'')
          \<lparr>files := [([''run'', ''cloud-init'', ''status.json''], ''datasource=DataSourceEc2 [seed=...]''),
                     ([''etc'', ''cloud'', ''cloud.cfg.d'', ''zzzz_snapd.cfg''],
                      ''datasource_list: [Ec2]'' @ [newline])]\<rparr>)"
proof -
  let ?fs = "sampleTree ''datasource=DataSourceEc2 [seed=...]''"
  have rd: "Option.bind (ReadFile (Join (path_of ''/'') [''run'', ''cloud-init'', ''status.json'']) ?fs)
              sampleJsonDecode
            = Some \<lparr>V1 = \<lparr>v1Data.DataSource = ''DataSourceEc2 [seed=...]''\<rparr>\<rparr>"
    by code_simp
  have raw: "v1Data.DataSource (V1 \<lparr>V1 = \<lparr>v1Data.DataSource = ''DataSourceEc2 [seed=...]''\<rparr>\<rparr>)
               = ''DataSourceEc2 [seed='' @ ''...'' @ '']''"
    by simp
  have w: "WriteFile (Join (path_of ''/'') cloudInitSnapdRestrictFile)
             (''datasource_list: [Ec2]'' @ [newline]) ?fs
           = (True, ?fs\<lparr>files := [([''run'', ''cloud-init'', ''status.json''], ''datasource=DataSourceEc2 [seed=...]''),
                     ([''etc'', ''cloud'', ''cloud.cfg.d'', ''zzzz_snapd.cfg''],
                      ''datasource_list: [Ec2]'' @ [newline])]\<rparr>)"
    by code_simp
  from restrict_done_ec2 [OF _ rd raw, of None] w
  show ?thesis by simp
qed

section \<open>The switch on the state\<close>

text \<open>
  Claim C7, as amended. In state \<open>CloudInitErrored\<close> or \<open>CloudInitEnabled\<close> the call
  returns an error and changes nothing when \<open>ForceDisable\<close> is false (or the options are
  nil); when \<open>ForceDisable\<close> is true it is the call for \<open>CloudInitUntriggered\<close>. In state
  \<open>CloudInitUntriggered\<close> or \<open>CloudInitNotFound\<close> the call is \<^verbatim>\<open>DisableCloudInit\<close> on
  the root, returned next to the outcome with action \<^verbatim>\<open>disable\<close>; when it returns no
  error the empty marker file \<^verbatim>\<open>cloud-init.disabled\<close> is there.
\<close>

theorem restrict_by_state:
  "((st = CloudInitErrored \<or> st = CloudInitEnabled) \<and>
      (opts = None \<or> (\<exists>o1. opts = Some o1 \<and> \<not> ForceDisable o1)) \<longrightarrow>
        RestrictCloudInit root dec st opts fs =
          ((\<lparr>Action = [], DataSource = []\<rparr>, Some ErrorOrEnabledState), fs)) \<and>
   ((st = CloudInitErrored \<or> st = CloudInitEnabled) \<and>
      (\<exists>o1. opts = Some o1 \<and> ForceDisable o1) \<longrightarrow>
        RestrictCloudInit root dec st opts fs =
          RestrictCloudInit root dec CloudInitUntriggered opts fs) \<and>
   (st = CloudInitUntriggered \<or> st = CloudInitNotFound \<longrightarrow>
        RestrictCloudInit root dec st opts fs =
          (case DisableCloudInit (path_of root) fs of
             (err, fs') \<Rightarrow> ((\<lparr>Action = ''disable'', DataSource = []\<rparr>, err), fs')) \<and>
        Action (fst (fst (RestrictCloudInit root dec st opts fs))) = ''disable'' \<and>
        (snd (fst (RestrictCloudInit root dec st opts fs)) = None \<longrightarrow>
           ReadFile (Join (path_of root) cloudInitDisabledFile)
             (snd (RestrictCloudInit root dec st opts fs)) = Some []))"
proof -
  have d: "ReadFile (Join (path_of root) cloudInitDisabledFile) (snd (disableAction root fs)) = Some []"
    if "snd (fst (disableAction root fs)) = None"
  proof -
    obtain e fs1 where x: "DisableCloudInit (path_of root) fs = (e, fs1)"
      by (cases "DisableCloudInit (path_of root) fs")
    with that have "e = None" by (simp add: disableAction_def)
    with x DisableCloudInit_written [of "path_of root" fs fs1]
    show ?thesis by (simp add: disableAction_def ReadFile_def)
  qed
  have a: "Action (fst (fst (disableAction root fs))) = ''disable''"
    by (simp add: disableAction_def split: prod.splits)
  show ?thesis
    using d a by (auto simp: RestrictCloudInit_def Let_def disableAction_def)
qed

theorem restrict_by_state_witness:
  "RestrictCloudInit ''/'' sampleJsonDecode CloudInitEnabled None (sampleTree [])
     = ((\<lparr>Action = [], DataSource = []\<rparr>, Some ErrorOrEnabledState), sampleTree []) \<and>
   RestrictCloudInit ''/'' sampleJsonDecode CloudInitErrored
       (Some \<lparr>ForceDisable = True, DisableAfterLocalDatasourcesRun = False\<rparr>) (sampleTree [])
     = RestrictCloudInit ''/'' sampleJsonDecode CloudInitUntriggered
       (Some \<lparr>ForceDisable = True, DisableAfterLocalDatasourcesRun = False\<rparr>) (sampleTree []) \<and>
   Action (fst (fst (RestrictCloudInit ''/'' sampleJsonDecode CloudInitNotFound None (sampleTree []))))
     = ''disable'' \<and>
   ReadFile (Join (path_of ''/'') cloudInitDisabledFile)
     (snd (RestrictCloudInit ''/'' sampleJsonDecode CloudInitNotFound None (sampleTree []))) = Some []"
proof -
  have e: "snd (fst (RestrictCloudInit ''/'' sampleJsonDecode CloudInitNotFound None (sampleTree [])))
             = None"
    by code_simp
  have t1: "RestrictCloudInit ''/'' sampleJsonDecode CloudInitEnabled None (sampleTree [])
     = ((\<lparr>Action = [], DataSource = []\<rparr>, Some ErrorOrEnabledState), sampleTree [])"
    using restrict_by_state [of CloudInitEnabled None "''/''" sampleJsonDecode "sampleTree []"]
    by blast
  have "ForceDisable \<lparr>ForceDisable = True, DisableAfterLocalDatasourcesRun = False\<rparr>"
    by simp
  then have t2: "RestrictCloudInit ''/'' sampleJsonDecode CloudInitErrored
       (Some \<lparr>ForceDisable = True, DisableAfterLocalDatasourcesRun = False\<rparr>) (sampleTree [])
     = RestrictCloudInit ''/'' sampleJsonDecode CloudInitUntriggered
       (Some \<lparr>ForceDisable = True, DisableAfterLocalDatasourcesRun = False\<rparr>) (sampleTree [])"
    using restrict_by_state [of CloudInitErrored
       "Some \<lparr>ForceDisable = True, DisableAfterLocalDatasourcesRun = False\<rparr>"
       "''/''" sampleJsonDecode "sampleTree []"]
    by blast
  have t3: "Action (fst (fst (RestrictCloudInit ''/'' sampleJsonDecode CloudInitNotFound None (sampleTree []))))
     = ''disable'' \<and>
   ReadFile (Join (path_of ''/'') cloudInitDisabledFile)
     (snd (RestrictCloudInit ''/'' sampleJsonDecode CloudInitNotFound None (sampleTree []))) = Some []"
    using restrict_by_state [of CloudInitNotFound None "''/''" sampleJsonDecode "sampleTree []"] e
    by blast
  from t1 t2 t3 show ?thesis by blast
qed

text \<open>
  The claim as first stated promises the marker file for every call in state
  \<open>CloudInitUntriggered\<close>. On a read-only tree the call returns action \<^verbatim>\<open>disable\<close>
  next to the error of \<^verbatim>\<open>DisableCloudInit\<close>, and no marker file exists.
\<close>

theorem restrict_by_state_counterexample:
  "RestrictCloudInit ''/'' sampleJsonDecode CloudInitUntriggered None readonlyTree
     = ((\<lparr>Action = ''disable'', DataSource = []\<rparr>, Some CannotDisableCloudInit), readonlyTree) \<and>
   \<not> FileExists readonlyTree [''etc'', ''cloud'', ''cloud-init.disabled'']"
  by code_simp

section \<open>The status words\<close>

lemma splitOn_no_sep: "sep \<notin> set s \<Longrightarrow> splitOn sep acc s = [acc @ s]"
  by (induction s arbitrary: acc) auto

lemma splitOn_first: "sep \<notin> set s \<Longrightarrow> splitOn sep acc (s @ sep # t) = (acc @ s) # splitOn sep [] t"
  by (induction s arbitrary: acc) auto

lemma status_single_line:
  assumes "newline \<notin> set word"
  shows "cloudInitStatusRe_FindSubmatch (''status: '' @ word) = [''status: '' @ word, word]"
proof -
  from assms have "newline \<notin> set (''status: '' @ word)" by (simp add: newline_def)
  from splitOn_no_sep [OF this, of "[]"] show ?thesis
    by (simp add: cloudInitStatusRe_FindSubmatch_def)
qed

lemma status_first_line:
  assumes "newline \<notin> set word"
  shows "cloudInitStatusRe_FindSubmatch (''status: '' @ word @ newline # rest)
           = [''status: '' @ word, word]"
proof -
  from assms have "newline \<notin> set (''status: '' @ word)" by (simp add: newline_def)
  from splitOn_first [OF this, of "[]" rest] show ?thesis
    by (simp add: cloudInitStatusRe_FindSubmatch_def)
qed

text \<open>
  Claim C10. When no marker file is present, the executable is found, its status command
  succeeds, and its output matches the pattern with the word \<open>word\<close> after
  \<^verbatim>\<open>status: \<close>, then \<^verbatim>\<open>CloudInitStatus\<close> returns, without error,
  \<open>CloudInitUntriggered\<close> for \<^verbatim>\<open>disabled\<close>, \<open>CloudInitErrored\<close> for \<^verbatim>\<open>error\<close>,
  \<open>CloudInitDone\<close> for \<^verbatim>\<open>done\<close>, and \<open>CloudInitEnabled\<close> for every other word, among
  them \<^verbatim>\<open>running\<close> and \<^verbatim>\<open>not run\<close>: a state other than \<open>CloudInitEnabled\<close> comes
  from one of the three words only. (\<open>status_single_line\<close> and \<open>status_first_line\<close> show
  that an output whose first line is \<^verbatim>\<open>status: \<close> and a word matches with that word.)
\<close>

theorem status_word_mapping:
  assumes nr: "\<not> FileExists fs (Join (path_of root) cloudInitSnapdRestrictFile)"
    and nd: "\<not> FileExists fs (Join (path_of root) cloudInitDisabledFile)"
    and lp: "lookPath ag ''cloud-init'' = Some bin"
    and run: "combinedOutput ag bin [''status''] = (out, False)"
    and re: "cloudInitStatusRe_FindSubmatch out = [whole, word]"
  shows "fst (CloudInitStatus root ag fs) =
           (if word = ''disabled'' then CloudInitUntriggered
            else if word = ''error'' then CloudInitErrored
            else if word = ''done'' then CloudInitDone
            else CloudInitEnabled, None) \<and>
         (word = ''running'' \<or> word = ''not run'' \<longrightarrow>
            fst (CloudInitStatus root ag fs) = (CloudInitEnabled, None)) \<and>
         (fst (fst (CloudInitStatus root ag fs)) \<noteq> CloudInitEnabled \<longrightarrow>
            word = ''disabled'' \<or> word = ''error'' \<or> word = ''done'')"
  using assms by (simp add: CloudInitStatus_def)

theorem status_word_mapping_witness:
  "fst (CloudInitStatus ''/'' (sampleAgent ''status: not run'') (sampleTree []))
     = (CloudInitEnabled, None)"
proof -
  have nr: "\<not> FileExists (sampleTree []) (Join (path_of ''/'') cloudInitSnapdRestrictFile)"
    by code_simp
  have nd: "\<not> FileExists (sampleTree []) (Join (path_of ''/'') cloudInitDisabledFile)"
    by code_simp
  have lp: "lookPath (sampleAgent ''status: not run'') ''cloud-init'' = Some ''/usr/bin/cloud-init''"
    by (simp add: sampleAgent_def)
  have run: "combinedOutput (sampleAgent ''status: not run'') ''/usr/bin/cloud-init'' [''status'']
               = (''status: not run'', False)"
    by (simp add: sampleAgent_def)
  have re: "cloudInitStatusRe_FindSubmatch ''status: not run'' = [''status: not run'', ''not run'']"
    by code_simp
  from status_word_mapping [OF nr nd lp run re] show ?thesis by simp
qed


section \<open>The datasources of a configuration\<close>

lemma upperChar_idem: "upperChar (upperChar c) = upperChar c"
  by (simp add: upperChar_def)

lemma sampleToUpper_idem: "sampleToUpper (sampleToUpper s) = sampleToUpper s"
  by (simp add: sampleToUpper_def upperChar_idem)

lemma elems_sorted_append: "elems (map_option sort (appendAll None xs)) = sort xs"
  by (simp add: appendAll_def elems_def)

lemma datasourcesInUse_absent:
  assumes "DatasourceList cfg = None"
  shows "ExplicitlyAllowed (datasourcesInUse toUpper cfg) = None"
    and "\<not> ExplicitlyNoneAllowed (datasourcesInUse toUpper cfg)"
  using assms by (simp_all add: datasourcesInUse_def Let_def)

lemma datasourcesInUse_empty:
  assumes "DatasourceList cfg = Some []"
  shows "ExplicitlyAllowed (datasourcesInUse toUpper cfg) = None"
    and "ExplicitlyNoneAllowed (datasourcesInUse toUpper cfg)"
  using assms by (simp_all add: datasourcesInUse_def Let_def)

lemma datasourcesInUse_allowed:
  "elems (ExplicitlyAllowed (datasourcesInUse toUpper cfg)) =
     (case DatasourceList cfg of None \<Rightarrow> [] | Some l \<Rightarrow> sort (remdups (map toUpper l)))"
  by (simp add: datasourcesInUse_def Let_def elems_def appendAll_def split: option.splits)

lemma datasourcesInUse_mentioned:
  "elems (Mentioned (datasourcesInUse toUpper cfg)) =
     sort (map toUpper (remdups
       (map (\<lambda>ds. toUpper (fst ds)) (Datasource cfg) @
        map (\<lambda>ds. toUpper (fst ds)) (Reporting cfg) @
        (case DatasourceList cfg of None \<Rightarrow> [] | Some l \<Rightarrow> map toUpper l))))"
  by (simp add: datasourcesInUse_def Let_def elems_sorted_append split: option.splits)

lemma cloudDatasourcesInUse_parsed:
  assumes "ReadFile configFile fs = Some b" and "yamlUnmarshal b = Some cfg"
  shows "cloudDatasourcesInUse toUpper yamlUnmarshal fs configFile
           = Inr (datasourcesInUse toUpper cfg)"
  using assms by (simp add: cloudDatasourcesInUse_def)

text \<open>
  Claim C8. For a configuration file that is read and parsed: when \<^verbatim>\<open>datasource_list\<close>
  is present and empty, the result has \<open>ExplicitlyNoneAllowed\<close> true and no element in
  \<open>ExplicitlyAllowed\<close>; when it is absent, \<open>ExplicitlyAllowed\<close> is nil and
  \<open>ExplicitlyNoneAllowed\<close> is false. The result for a document of one kind is never the
  result for a document of the other kind.
\<close>

theorem datasource_list_empty_or_absent:
  assumes rd: "ReadFile configFile fs = Some b" and parse: "yamlUnmarshal b = Some cfg"
  shows "\<exists>res. cloudDatasourcesInUse toUpper yamlUnmarshal fs configFile = Inr res \<and>
           (DatasourceList cfg = Some [] \<longrightarrow>
              ExplicitlyNoneAllowed res \<and> elems (ExplicitlyAllowed res) = []) \<and>
           (DatasourceList cfg = None \<longrightarrow>
              ExplicitlyAllowed res = None \<and> \<not> ExplicitlyNoneAllowed res) \<and>
           (\<forall>cfg'. (DatasourceList cfg = Some [] \<and> DatasourceList cfg' = None) \<or>
                   (DatasourceList cfg = None \<and> DatasourceList cfg' = Some []) \<longrightarrow>
                   datasourcesInUse toUpper cfg' \<noteq> res)"
proof -
  let ?res = "datasourcesInUse toUpper cfg"
  have "ExplicitlyNoneAllowed (datasourcesInUse toUpper cfg') \<noteq> ExplicitlyNoneAllowed ?res"
    if "(DatasourceList cfg = Some [] \<and> DatasourceList cfg' = None) \<or>
        (DatasourceList cfg = None \<and> DatasourceList cfg' = Some [])" for cfg'
    using that datasourcesInUse_absent(2) datasourcesInUse_empty(2) by blast
  then have "\<forall>cfg'. (DatasourceList cfg = Some [] \<and> DatasourceList cfg' = None) \<or>
                   (DatasourceList cfg = None \<and> DatasourceList cfg' = Some []) \<longrightarrow>
                   datasourcesInUse toUpper cfg' \<noteq> ?res"
    by metis
  then show ?thesis
    using cloudDatasourcesInUse_parsed [where yamlUnmarshal = yamlUnmarshal and toUpper = toUpper, OF rd parse]
      datasourcesInUse_absent [of cfg toUpper] datasourcesInUse_empty [of cfg toUpper]
    by (auto simp: elems_def)
qed

theorem datasource_list_empty_or_absent_witness:
  "cloudDatasourcesInUse sampleToUpper sampleYamlUnmarshal (configTree ''datasource_list: []'')
       [''gadget'', ''cloud.conf'']
     = Inr \<lparr>ExplicitlyAllowed = None, ExplicitlyNoneAllowed = True, Mentioned = None\<rparr> \<and>
   cloudDatasourcesInUse sampleToUpper sampleYamlUnmarshal (configTree ''network: {}'')
       [''gadget'', ''cloud.conf'']
     = Inr \<lparr>ExplicitlyAllowed = None, ExplicitlyNoneAllowed = False, Mentioned = None\<rparr>"
proof -
  let ?e = "\<lparr>Datasource = [], Network = [], DatasourceList = Some [], Reporting = []\<rparr>"
  let ?a = "\<lparr>Datasource = [], Network = [], DatasourceList = None, Reporting = []\<rparr>"
  have rd1: "ReadFile [''gadget'', ''cloud.conf''] (configTree ''datasource_list: []'')
               = Some ''datasource_list: []''"
    by code_simp
  have p1: "sampleYamlUnmarshal ''datasource_list: []'' = Some ?e"
    by code_simp
  have rd2: "ReadFile [''gadget'', ''cloud.conf''] (configTree ''network: {}'') = Some ''network: {}''"
    by code_simp
  have p2: "sampleYamlUnmarshal ''network: {}'' = Some ?a"
    by code_simp
  have m1: "Mentioned (datasourcesInUse sampleToUpper ?e) = None"
    by code_simp
  have m2: "Mentioned (datasourcesInUse sampleToUpper ?a) = None"
    by code_simp
  from datasource_list_empty_or_absent [where yamlUnmarshal = sampleYamlUnmarshal and toUpper = sampleToUpper, OF rd1 p1]
    cloudDatasourcesInUse_parsed [where yamlUnmarshal = sampleYamlUnmarshal and toUpper = sampleToUpper, OF rd1 p1]
    datasourcesInUse_empty [of ?e sampleToUpper] m1
  have 1: "cloudDatasourcesInUse sampleToUpper sampleYamlUnmarshal (configTree ''datasource_list: []'')
       [''gadget'', ''cloud.conf'']
     = Inr \<lparr>ExplicitlyAllowed = None, ExplicitlyNoneAllowed = True, Mentioned = None\<rparr>"
    by (auto simp: elems_def split: option.splits)
  from datasource_list_empty_or_absent [where yamlUnmarshal = sampleYamlUnmarshal and toUpper = sampleToUpper, OF rd2 p2]
    cloudDatasourcesInUse_parsed [where yamlUnmarshal = sampleYamlUnmarshal and toUpper = sampleToUpper, OF rd2 p2] m2
  have 2: "cloudDatasourcesInUse sampleToUpper sampleYamlUnmarshal (configTree ''network: {}'')
       [''gadget'', ''cloud.conf'']
     = Inr \<lparr>ExplicitlyAllowed = None, ExplicitlyNoneAllowed = False, Mentioned = None\<rparr>"
    by auto
  from 1 2 show ?thesis by simp
qed

text \<open>
  Claim C9. For a configuration file that is read and parsed, with \<open>toUpper\<close> idempotent
  as \<^verbatim>\<open>strings.ToUpper\<close> is: every name of \<open>ExplicitlyAllowed\<close> is in \<open>Mentioned\<close>;
  every name of either list is upper-cased (\<open>toUpper\<close> leaves it as it is); both lists
  are sorted in ascending order; and a document whose names differ from this one's only
  by case (the same names after \<open>toUpper\<close>) has the same \<open>Mentioned\<close>.
\<close>

theorem datasources_invariants:
  assumes rd: "ReadFile configFile fs = Some b" and parse: "yamlUnmarshal b = Some cfg"
    and idem: "\<And>s. toUpper (toUpper s) = toUpper s"
  shows "\<exists>res. cloudDatasourcesInUse toUpper yamlUnmarshal fs configFile = Inr res \<and>
           set (elems (ExplicitlyAllowed res)) \<subseteq> set (elems (Mentioned res)) \<and>
           (\<forall>n \<in> set (elems (ExplicitlyAllowed res)) \<union> set (elems (Mentioned res)). toUpper n = n) \<and>
           sorted (elems (ExplicitlyAllowed res)) \<and> sorted (elems (Mentioned res)) \<and>
           (\<forall>cfg'. map (\<lambda>ds. toUpper (fst ds)) (Datasource cfg')
                      = map (\<lambda>ds. toUpper (fst ds)) (Datasource cfg) \<and>
                   map (\<lambda>ds. toUpper (fst ds)) (Reporting cfg')
                      = map (\<lambda>ds. toUpper (fst ds)) (Reporting cfg) \<and>
                   map_option (map toUpper) (DatasourceList cfg')
                      = map_option (map toUpper) (DatasourceList cfg) \<longrightarrow>
                   Mentioned (datasourcesInUse toUpper cfg') = Mentioned res)"
proof -
  let ?res = "datasourcesInUse toUpper cfg"
  let ?src = "map (\<lambda>ds. toUpper (fst ds)) (Datasource cfg) @
        map (\<lambda>ds. toUpper (fst ds)) (Reporting cfg) @
        (case DatasourceList cfg of None \<Rightarrow> [] | Some l \<Rightarrow> map toUpper l)"
  have up: "toUpper n = n" if "n \<in> set ?src" for n
    using that idem by (auto split: option.splits)
  have "map toUpper (remdups ?src) = remdups ?src"
  proof (rule map_idI)
    fix n assume "n \<in> set (remdups ?src)"
    then have "n \<in> set ?src" by (simp only: set_remdups)
    then show "toUpper n = n" by (rule up)
  qed
  then have men: "elems (Mentioned ?res) = sort (remdups ?src)"
    by (simp only: datasourcesInUse_mentioned)
  have alw: "elems (ExplicitlyAllowed ?res) =
     (case DatasourceList cfg of None \<Rightarrow> [] | Some l \<Rightarrow> sort (remdups (map toUpper l)))"
    by (rule datasourcesInUse_allowed)
  have sub: "set (elems (ExplicitlyAllowed ?res)) \<subseteq> set (elems (Mentioned ?res))"
  proof (cases "DatasourceList cfg")
    case None
    then show ?thesis by (simp only: alw option.case list.set empty_subsetI)
  next
    case (Some l)
    have "set (sort (remdups (map toUpper l))) \<subseteq>
          set (sort (remdups (map (\<lambda>ds. toUpper (fst ds)) (Datasource cfg) @
                 map (\<lambda>ds. toUpper (fst ds)) (Reporting cfg) @ map toUpper l)))"
      by (simp only: set_sort set_remdups set_append set_map) blast
    then show ?thesis by (simp only: alw men Some option.case)
  qed
  have upper: "\<forall>n \<in> set (elems (ExplicitlyAllowed ?res)) \<union> set (elems (Mentioned ?res)). toUpper n = n"
  proof
    fix n assume "n \<in> set (elems (ExplicitlyAllowed ?res)) \<union> set (elems (Mentioned ?res))"
    with sub have "n \<in> set (elems (Mentioned ?res))" by blast
    then have "n \<in> set ?src" by (simp only: men set_sort set_remdups)
    then show "toUpper n = n" by (rule up)
  qed
  have "sorted (elems (ExplicitlyAllowed ?res))"
    by (cases "DatasourceList cfg") (simp_all only: alw option.case sorted_sort sorted_wrt.simps)
  moreover have "sorted (elems (Mentioned ?res))"
    by (simp only: men sorted_sort)
  ultimately have srt: "sorted (elems (ExplicitlyAllowed ?res)) \<and> sorted (elems (Mentioned ?res))"
    by (rule conjI)
  have same: "Mentioned (datasourcesInUse toUpper cfg') = Mentioned ?res"
    if "map (\<lambda>ds. toUpper (fst ds)) (Datasource cfg')
                      = map (\<lambda>ds. toUpper (fst ds)) (Datasource cfg)"
       "map (\<lambda>ds. toUpper (fst ds)) (Reporting cfg')
                      = map (\<lambda>ds. toUpper (fst ds)) (Reporting cfg)"
       "map_option (map toUpper) (DatasourceList cfg')
                      = map_option (map toUpper) (DatasourceList cfg)" for cfg'
    using that
    by (cases "DatasourceList cfg"; cases "DatasourceList cfg'")
       (auto simp: datasourcesInUse_def Let_def)
  from cloudDatasourcesInUse_parsed [where yamlUnmarshal = yamlUnmarshal and toUpper = toUpper, OF rd parse] sub upper srt same
  show ?thesis by blast
qed


theorem datasources_invariants_witness:
  "cloudDatasourcesInUse sampleToUpper sampleYamlUnmarshal (configTree ''datasource_list: maas,Ec2'')
       [''gadget'', ''cloud.conf'']
     = Inr \<lparr>ExplicitlyAllowed = Some [''EC2'', ''MAAS''], ExplicitlyNoneAllowed = False,
            Mentioned = Some [''EC2'', ''MAAS'']\<rparr> \<and>
   Mentioned (datasourcesInUse sampleToUpper
       \<lparr>Datasource = [], Network = [], DatasourceList = Some [''MAAS'', ''EC2''], Reporting = []\<rparr>)
     = Some [''EC2'', ''MAAS''] \<and>
   Mentioned (datasourcesInUse sampleToUpper
       \<lparr>Datasource = [], Network = [], DatasourceList = Some [''Maas'', ''ec2''], Reporting = []\<rparr>)
     = Some [''EC2'', ''MAAS'']"
proof -
  let ?c = "\<lparr>Datasource = [], Network = [], DatasourceList = Some [''maas'', ''Ec2''], Reporting = []\<rparr>"
  let ?c1 = "\<lparr>Datasource = [], Network = [], DatasourceList = Some [''MAAS'', ''EC2''], Reporting = []\<rparr>"
  let ?c2 = "\<lparr>Datasource = [], Network = [], DatasourceList = Some [''Maas'', ''ec2''], Reporting = []\<rparr>"
  have rd: "ReadFile [''gadget'', ''cloud.conf''] (configTree ''datasource_list: maas,Ec2'')
              = Some ''datasource_list: maas,Ec2''"
    by code_simp
  have parse: "sampleYamlUnmarshal ''datasource_list: maas,Ec2'' = Some ?c"
    by code_simp
  have v: "cloudDatasourcesInUse sampleToUpper sampleYamlUnmarshal
             (configTree ''datasource_list: maas,Ec2'') [''gadget'', ''cloud.conf'']
           = Inr \<lparr>ExplicitlyAllowed = Some [''EC2'', ''MAAS''], ExplicitlyNoneAllowed = False,
                  Mentioned = Some [''EC2'', ''MAAS'']\<rparr>"
    by code_simp
  from datasources_invariants [where yamlUnmarshal = sampleYamlUnmarshal and toUpper = sampleToUpper,
      OF rd parse sampleToUpper_idem]
  obtain res where r: "cloudDatasourcesInUse sampleToUpper sampleYamlUnmarshal
             (configTree ''datasource_list: maas,Ec2'') [''gadget'', ''cloud.conf''] = Inr res"
    and same: "\<And>cfg'. map (\<lambda>ds. sampleToUpper (fst ds)) (Datasource cfg')
                      = map (\<lambda>ds. sampleToUpper (fst ds)) (Datasource ?c) \<and>
                   map (\<lambda>ds. sampleToUpper (fst ds)) (Reporting cfg')
                      = map (\<lambda>ds. sampleToUpper (fst ds)) (Reporting ?c) \<and>
                   map_option (map sampleToUpper) (DatasourceList cfg')
                      = map_option (map sampleToUpper) (DatasourceList ?c) \<Longrightarrow>
                   Mentioned (datasourcesInUse sampleToUpper cfg') = Mentioned res"
    by blast
  from r v have "res = \<lparr>ExplicitlyAllowed = Some [''EC2'', ''MAAS''], ExplicitlyNoneAllowed = False,
                  Mentioned = Some [''EC2'', ''MAAS'']\<rparr>"
    by simp
  then have m: "Mentioned res = Some [''EC2'', ''MAAS'']" by simp
  have u: "sampleToUpper ''maas'' = ''MAAS''" "sampleToUpper ''Ec2'' = ''EC2''"
    "sampleToUpper ''MAAS'' = ''MAAS''" "sampleToUpper ''EC2'' = ''EC2''"
    "sampleToUpper ''Maas'' = ''MAAS''" "sampleToUpper ''ec2'' = ''EC2''"
    by code_simp+
  have "Mentioned (datasourcesInUse sampleToUpper ?c1) = Some [''EC2'', ''MAAS'']"
    using same [of ?c1] m u by simp
  moreover have "Mentioned (datasourcesInUse sampleToUpper ?c2) = Some [''EC2'', ''MAAS'']"
    using same [of ?c2] m u by simp
  ultimately show ?thesis using v by simp
qed

section \<open>Grade secured\<close>

lemma CopyFile_files:
  assumes "CopyFile excl src dst fs = (ok, fs')" and "q \<noteq> dst"
  shows "map_of (files fs') q = map_of (files fs) q"
  using assms
  by (auto simp: CopyFile_def WriteFile_def update_conv' split: option.splits if_splits)

lemma installGadgetCloudInitCfg_files:
  assumes "installGadgetCloudInitCfg excl toUpper yamlUnmarshal src targetdir fs = (r, fs')"
    and "q \<noteq> Join (ubuntuDataCloudDir targetdir) [''cloud.cfg.d'', ''80_device_gadget.cfg'']"
  shows "map_of (files fs') q = map_of (files fs) q"
proof -
  let ?d = "Join (ubuntuDataCloudDir targetdir) [''cloud.cfg.d'']"
  obtain ok fs1 where m: "MkdirAll ?d fs = (ok, fs1)" by (cases "MkdirAll ?d fs")
  then have f1: "files fs1 = files fs" by (simp add: MkdirAll_def mkdirs_files)
  have j: "Join ?d [''80_device_gadget.cfg'']
             = Join (ubuntuDataCloudDir targetdir) [''cloud.cfg.d'', ''80_device_gadget.cfg'']"
    by (simp add: Join_def)
  show ?thesis
  proof (cases ok)
    case False
    with assms(1) m f1 show ?thesis by (simp add: installGadgetCloudInitCfg_def Let_def)
  next
    case True
    show ?thesis
    proof (cases "cloudDatasourcesInUse toUpper yamlUnmarshal fs1 src")
      case (Inl e)
      with assms(1) m f1 True show ?thesis by (simp add: installGadgetCloudInitCfg_def Let_def)
    next
      case (Inr res)
      obtain ok2 fs2 where c: "CopyFile excl src (Join ?d [''80_device_gadget.cfg'']) fs1 = (ok2, fs2)"
        by (cases "CopyFile excl src (Join ?d [''80_device_gadget.cfg'']) fs1")
      from assms(1) m True Inr c have "fs' = fs2"
        by (cases ok2) (simp_all add: installGadgetCloudInitCfg_def Let_def)
      with CopyFile_files [OF c, of q] assms(2) j f1 show ?thesis by simp
    qed
  qed
qed


lemma configureCloudInit_secured:
  assumes "Grade model = ModelSecured"
  shows "configureCloudInit excl WritableDefaultsDir toUpper yamlUnmarshal model opts fs =
           (if TargetRootDir opts = [] then (Some MissingTargetDir, fs)
            else if \<not> AllowCloudInit opts
            then DisableCloudInit (WritableDefaultsDir (TargetRootDir opts)) fs
            else if HasGadgetCloudConf (path_of (GadgetDir opts)) fs
            then (case installGadgetCloudInitCfg excl toUpper yamlUnmarshal
                         (Join (path_of (GadgetDir opts)) [''cloud.conf''])
                         (WritableDefaultsDir (TargetRootDir opts)) fs of
                    (Inl e, fs1) \<Rightarrow> (Some e, fs1)
                  | (Inr res, fs1) \<Rightarrow> (None, fs1))
            else (None, fs))"
  using assms
  by (simp add: configureCloudInit_def Let_def split: prod.splits sum.splits)

text \<open>
  Claim C2. For a model of grade secured, whatever the tree holds in the seed area and
  whatever \<open>CloudInitSrcDir\<close> names: the only files of the tree that
  \<^verbatim>\<open>configureCloudInit\<close> can change are the gadget's \<^verbatim>\<open>80_device_gadget.cfg\<close> and the
  marker \<^verbatim>\<open>cloud-init.disabled\<close>; no file \<^verbatim>\<open>90_<name>\<close>, the names under which
  seed configuration is installed, is created or changed; the result does not depend on
  \<open>CloudInitSrcDir\<close>. With a target directory and cloud-init allowed, the call returns
  right after the gadget step: nil when there is no gadget \<^verbatim>\<open>cloud.conf\<close> or it was
  installed, the error of the gadget step otherwise.
\<close>

theorem secured_installs_no_seed:
  assumes grade: "Grade model = ModelSecured"
    and call: "configureCloudInit excl WritableDefaultsDir toUpper yamlUnmarshal model opts fs
                 = (err, fs')"
  shows "(\<forall>p. map_of (files fs') p \<noteq> map_of (files fs) p \<longrightarrow>
            p = Join (ubuntuDataCloudDir (WritableDefaultsDir (TargetRootDir opts)))
                  [''cloud.cfg.d'', ''80_device_gadget.cfg''] \<or>
            p = Join (WritableDefaultsDir (TargetRootDir opts)) cloudInitDisabledFile) \<and>
         (\<forall>name. ReadFile (Join (ubuntuDataCloudDir (WritableDefaultsDir (TargetRootDir opts)))
                              [''cloud.cfg.d'', ''90_'' @ name]) fs'
                 = ReadFile (Join (ubuntuDataCloudDir (WritableDefaultsDir (TargetRootDir opts)))
                              [''cloud.cfg.d'', ''90_'' @ name]) fs) \<and>
         (\<forall>dir. configureCloudInit excl WritableDefaultsDir toUpper yamlUnmarshal model
                   (opts\<lparr>CloudInitSrcDir := dir\<rparr>) fs = (err, fs')) \<and>
         (TargetRootDir opts \<noteq> [] \<and> AllowCloudInit opts \<longrightarrow>
            (if HasGadgetCloudConf (path_of (GadgetDir opts)) fs
             then (err, fs') =
                    (case installGadgetCloudInitCfg excl toUpper yamlUnmarshal
                            (Join (path_of (GadgetDir opts)) [''cloud.conf''])
                            (WritableDefaultsDir (TargetRootDir opts)) fs of
                       (Inl e, fs1) \<Rightarrow> (Some e, fs1)
                     | (Inr res, fs1) \<Rightarrow> (None, fs1))
             else (err, fs') = (None, fs)))"
proof -
  let ?t = "WritableDefaultsDir (TargetRootDir opts)"
  let ?g = "Join (ubuntuDataCloudDir ?t) [''cloud.cfg.d'', ''80_device_gadget.cfg'']"
  let ?d = "Join ?t cloudInitDisabledFile"
  let ?src = "Join (path_of (GadgetDir opts)) [''cloud.conf'']"
  note sec = configureCloudInit_secured [OF grade, of excl WritableDefaultsDir toUpper yamlUnmarshal]
  from call have c: "(if TargetRootDir opts = [] then (Some MissingTargetDir, fs)
            else if \<not> AllowCloudInit opts then DisableCloudInit ?t fs
            else if HasGadgetCloudConf (path_of (GadgetDir opts)) fs
            then (case installGadgetCloudInitCfg excl toUpper yamlUnmarshal ?src ?t fs of
                    (Inl e, fs1) \<Rightarrow> (Some e, fs1)
                  | (Inr res, fs1) \<Rightarrow> (None, fs1))
            else (None, fs)) = (err, fs')"
    by (simp only: sec)
  obtain r fs1 where g: "installGadgetCloudInitCfg excl toUpper yamlUnmarshal ?src ?t fs = (r, fs1)"
    by (cases "installGadgetCloudInitCfg excl toUpper yamlUnmarshal ?src ?t fs")
  obtain e2 fs2 where d: "DisableCloudInit ?t fs = (e2, fs2)"
    by (cases "DisableCloudInit ?t fs")
  have files: "map_of (files fs') p = map_of (files fs) p" if "p \<noteq> ?g" "p \<noteq> ?d" for p
    using c g d that
      installGadgetCloudInitCfg_files [OF g, of p] DisableCloudInit_files [OF d, of p]
    by (cases r) (auto split: if_splits)
  then have 1: "\<forall>p. map_of (files fs') p \<noteq> map_of (files fs) p \<longrightarrow> p = ?g \<or> p = ?d"
    by blast
  have 2: "ReadFile (Join (ubuntuDataCloudDir ?t) [''cloud.cfg.d'', ''90_'' @ name]) fs'
             = ReadFile (Join (ubuntuDataCloudDir ?t) [''cloud.cfg.d'', ''90_'' @ name]) fs" for name
    unfolding ReadFile_def
    by (rule files) (simp_all add: Join_def ubuntuDataCloudDir_def cloudInitDisabledFile_def)
  have 3: "configureCloudInit excl WritableDefaultsDir toUpper yamlUnmarshal model
             (opts\<lparr>CloudInitSrcDir := dir\<rparr>) fs = (err, fs')" for dir
  proof -
    have "configureCloudInit excl WritableDefaultsDir toUpper yamlUnmarshal model
             (opts\<lparr>CloudInitSrcDir := dir\<rparr>) fs
          = configureCloudInit excl WritableDefaultsDir toUpper yamlUnmarshal model opts fs"
      by (simp add: sec split del: if_split cong: if_cong)
    with call show ?thesis by simp
  qed
  have 4: "TargetRootDir opts \<noteq> [] \<and> AllowCloudInit opts \<longrightarrow>
            (if HasGadgetCloudConf (path_of (GadgetDir opts)) fs
             then (err, fs') =
                    (case installGadgetCloudInitCfg excl toUpper yamlUnmarshal ?src ?t fs of
                       (Inl e, fs1) \<Rightarrow> (Some e, fs1)
                     | (Inr res, fs1) \<Rightarrow> (None, fs1))
             else (err, fs') = (None, fs))"
    using c by (auto split: if_splits)
  from 1 2 3 4 show ?thesis by blast
qed

theorem secured_installs_no_seed_witness:
  "fst (configureCloudInit True sampleWritableDefaultsDir sampleToUpper sampleYamlUnmarshal
          \<lparr>Grade = ModelSecured\<rparr> sampleOptions seedTree) = None \<and>
   ReadFile [''target'', ''_writable_defaults'', ''etc'', ''cloud'', ''cloud.cfg.d'', ''90_user.cfg'']
     (snd (configureCloudInit True sampleWritableDefaultsDir sampleToUpper sampleYamlUnmarshal
          \<lparr>Grade = ModelSecured\<rparr> sampleOptions seedTree)) = None \<and>
   ReadFile [''target'', ''_writable_defaults'', ''etc'', ''cloud'', ''cloud.cfg.d'',
             ''80_device_gadget.cfg'']
     (snd (configureCloudInit True sampleWritableDefaultsDir sampleToUpper sampleYamlUnmarshal
          \<lparr>Grade = ModelSecured\<rparr> sampleOptions seedTree)) = Some ''datasource_list: maas''"
proof -
  let ?r = "configureCloudInit True sampleWritableDefaultsDir sampleToUpper sampleYamlUnmarshal
          \<lparr>Grade = ModelSecured\<rparr> sampleOptions seedTree"
  have grade: "Grade \<lparr>Grade = ModelSecured\<rparr> = ModelSecured" by simp
  have call: "?r = (fst ?r, snd ?r)" by simp
  have t: "Join (ubuntuDataCloudDir (sampleWritableDefaultsDir (TargetRootDir sampleOptions)))
             [''cloud.cfg.d'', ''90_'' @ ''user.cfg'']
           = [''target'', ''_writable_defaults'', ''etc'', ''cloud'', ''cloud.cfg.d'', ''90_user.cfg'']"
    by code_simp
  have before: "ReadFile [''target'', ''_writable_defaults'', ''etc'', ''cloud'', ''cloud.cfg.d'',
                  ''90_user.cfg''] seedTree = None"
    by code_simp
  have e: "fst ?r = None" by code_simp
  have gadget: "ReadFile [''target'', ''_writable_defaults'', ''etc'', ''cloud'', ''cloud.cfg.d'',
             ''80_device_gadget.cfg''] (snd ?r) = Some ''datasource_list: maas''"
    by code_simp
  from secured_installs_no_seed [OF grade call]
  have "ReadFile (Join (ubuntuDataCloudDir (sampleWritableDefaultsDir (TargetRootDir sampleOptions)))
                              [''cloud.cfg.d'', ''90_'' @ ''user.cfg'']) (snd ?r)
                 = ReadFile (Join (ubuntuDataCloudDir (sampleWritableDefaultsDir (TargetRootDir sampleOptions)))
                              [''cloud.cfg.d'', ''90_'' @ ''user.cfg'']) seedTree"
    by blast
  with t before e gadget show ?thesis by simp
qed

text \<open>For comparison, grade dangerous installs the seed file on the same tree.\<close>

lemma dangerous_installs_seed:
  "ReadFile [''target'', ''_writable_defaults'', ''etc'', ''cloud'', ''cloud.cfg.d'', ''90_user.cfg'']
     (snd (configureCloudInit True sampleWritableDefaultsDir sampleToUpper sampleYamlUnmarshal
          \<lparr>Grade = ModelDangerous\<rparr> sampleOptions seedTree)) = Some ''datasource_list: NoCloud''"
  by code_simp

end
